theory Spec2Isabelle
  imports Complex_Main "HOL-Library.Sublist" "HOL-Library.Log_Nat"
begin

section \<open>Python values, exceptions and dictionaries\<close>

text \<open>
  The functions of \<^verbatim>\<open>api/preprocessor.py\<close>, \<^verbatim>\<open>api/predictor.py\<close> and the label
  computation of \<^verbatim>\<open>api/main.py\<close> work on dictionaries of type \<^verbatim>\<open>Dict[str, Any]\<close>.
  A dictionary value is a number, a string or \<^verbatim>\<open>None\<close>. Python's \<^verbatim>\<open>int\<close> and
  \<^verbatim>\<open>float\<close> are both \<open>Num\<close>: \<open>Num r\<close> stands for the \<^verbatim>\<open>int\<close> \<open>r\<close> or for the float
  \<open>r\<close>, and a float is an IEEE double, a real that \<open>to_double\<close> below leaves
  unchanged. The arithmetic of the risk score rounds as double arithmetic does;
  infinities and NaN are not part of this model. Logging is not modelled.
\<close>

datatype pyval = is_Num: Num (the_num: real) | Str string | NoneVal

datatype exn = TypeError | ValueError | KeyError | OverflowError

type_synonym pydict = "string \<rightharpoonup> pyval"

definition bindE :: "exn + 'a \<Rightarrow> ('a \<Rightarrow> exn + 'b) \<Rightarrow> exn + 'b" where
  "bindE m f = (case m of Inl e \<Rightarrow> Inl e | Inr x \<Rightarrow> f x)"

text \<open>\<^verbatim>\<open>d.get(k, default)\<close>\<close>

definition dict_get :: "('k \<rightharpoonup> 'v) \<Rightarrow> 'k \<Rightarrow> 'v \<Rightarrow> 'v" where
  "dict_get d k dflt = (case d k of None \<Rightarrow> dflt | Some v \<Rightarrow> v)"

text \<open>\<^verbatim>\<open>d[k]\<close>, which raises \<^verbatim>\<open>KeyError\<close> on an absent key.\<close>

definition dict_index :: "('k \<rightharpoonup> 'v) \<Rightarrow> 'k \<Rightarrow> exn + 'v" where
  "dict_index d k = (case d k of None \<Rightarrow> Inl KeyError | Some v \<Rightarrow> Inr v)"

text \<open>
  \<^verbatim>\<open>table.get(key, default)\<close> on one of the constant tables of the preprocessor, whose
  keys are strings: a key that is not a string is found in none of them.
\<close>

definition table_get :: "(string \<times> pyval) list \<Rightarrow> pyval \<Rightarrow> pyval \<Rightarrow> pyval" where
  "table_get t k dflt =
     (case k of Str s \<Rightarrow> (case map_of t s of Some v \<Rightarrow> v | None \<Rightarrow> dflt)
              | Num _ \<Rightarrow> dflt
              | NoneVal \<Rightarrow> dflt)"

subsection \<open>IEEE double arithmetic\<close>

text \<open>The integer nearest to a real, a tie going to the even one of the two.\<close>

definition round_half_even :: "real \<Rightarrow> int" where
  "round_half_even y =
     (let f = \<lfloor>y\<rfloor>; r = y - of_int f
      in if r < 1 / 2 then f else if 1 / 2 < r then f + 1 else if even f then f else f + 1)"

text \<open>
  Rounding to the nearest number with \<open>prec\<close> significant bits whose least quantum is
  \<open>2 ^ - scale\<close>: the quantum of \<open>x\<close> is \<open>2 ^ (s - scale)\<close>, where \<open>s\<close> is the number of
  bits by which the integer part of \<open>\<bar>x\<bar> * 2 ^ scale\<close> exceeds \<open>prec\<close> bits.
\<close>

definition round_binary :: "nat \<Rightarrow> nat \<Rightarrow> real \<Rightarrow> real" where
  "round_binary prec scale x =
     (let s = nat (max (bitlen \<lfloor>\<bar>x\<bar> * 2 ^ scale\<rfloor> - int prec) 0)
      in of_int (round_half_even (x * 2 ^ scale / 2 ^ s)) * 2 ^ s / 2 ^ scale)"

text \<open>
  The double nearest to a real: 53 significant bits, the least positive double is
  \<open>2 ^ - 1074\<close>. The literals \<^verbatim>\<open>0.2\<close>, \<^verbatim>\<open>0.1\<close> and \<^verbatim>\<open>0.3\<close> of the source are the doubles
  \<open>to_double 0.2\<close>, \<open>to_double 0.1\<close> and \<open>to_double 0.3\<close>.
\<close>

definition to_double :: "real \<Rightarrow> real" where
  "to_double x = round_binary 53 1074 x"

text \<open>
  The sum, the difference and the product of two floats: the exact result, rounded.
  Where the rounded result exceeds the largest double, Python's result is \<^verbatim>\<open>inf\<close>,
  which is outside this model; no step of the risk score of \<^verbatim>\<open>preprocess\<close> leaves the
  range (lemma \<open>risk_formula_steps_finite\<close>).
\<close>

definition fadd :: "real \<Rightarrow> real \<Rightarrow> real" where
  "fadd x y = to_double (x + y)"

definition fsub :: "real \<Rightarrow> real \<Rightarrow> real" where
  "fsub x y = to_double (x - y)"

definition fmul :: "real \<Rightarrow> real \<Rightarrow> real" where
  "fmul x y = to_double (x * y)"

text \<open>The largest double.\<close>

definition max_double :: real where
  "max_double = 2 ^ 1024 - 2 ^ 971"

text \<open>
  The conversion of a number to a float, which is \<^verbatim>\<open>float(x)\<close> and also what Python
  does to an \<^verbatim>\<open>int\<close> operand of an operation with a float: a float is left as it is
  (lemma \<open>to_float_finite\<close>), an \<^verbatim>\<open>int\<close> is rounded to the nearest double, and an
  \<^verbatim>\<open>int\<close> that rounds to \<open>2 ^ 1024\<close>, which are those from \<open>2 ^ 1024 - 2 ^ 970\<close> on
  in absolute value, raises \<^verbatim>\<open>OverflowError\<close>.
\<close>

definition to_float :: "real \<Rightarrow> exn + real" where
  "to_float x = (if \<bar>x\<bar> < 2 ^ 1024 - 2 ^ 970 then Inr (to_double x) else Inl OverflowError)"

text \<open>
  \<^verbatim>\<open>float(v)\<close>. A number is converted by \<open>to_float\<close>. On a string the result is that
  of Python's parser of float literals, which is a parameter \<open>str_to_float\<close> here
  (\<open>None\<close> where the parser raises \<^verbatim>\<open>ValueError\<close>); the parser returns a float
  (\<open>float_parser\<close> below), and its results \<^verbatim>\<open>inf\<close> and \<^verbatim>\<open>nan\<close> are outside this model.
  \<^verbatim>\<open>float(None)\<close> raises \<^verbatim>\<open>TypeError\<close>.
\<close>

definition py_float :: "(string \<Rightarrow> real option) \<Rightarrow> pyval \<Rightarrow> exn + real" where
  "py_float str_to_float v =
     (case v of Num r \<Rightarrow> to_float r
              | Str s \<Rightarrow> (case str_to_float s of Some r \<Rightarrow> Inr r | None \<Rightarrow> Inl ValueError)
              | NoneVal \<Rightarrow> Inl TypeError)"

text \<open>
  \<^verbatim>\<open>v * c\<close> for a float \<open>c\<close>: a number \<open>v\<close> is converted to a float, which raises
  \<^verbatim>\<open>OverflowError\<close> on an \<^verbatim>\<open>int\<close> beyond the double range, and the product of the two
  floats is rounded; a string or \<^verbatim>\<open>None\<close> raises \<^verbatim>\<open>TypeError\<close>.
\<close>

definition py_mul :: "pyval \<Rightarrow> real \<Rightarrow> exn + real" where
  "py_mul v c =
     (case v of Num r \<Rightarrow> bindE (to_float r) (\<lambda>x. Inr (fmul x c))
              | Str _ \<Rightarrow> Inl TypeError
              | NoneVal \<Rightarrow> Inl TypeError)"

text \<open>
  \<^verbatim>\<open>(c - v) * k\<close> for an \<^verbatim>\<open>int\<close> \<open>c\<close> and a float \<open>k\<close>. The difference with an \<^verbatim>\<open>int\<close>
  \<open>v\<close> is the exact \<^verbatim>\<open>int\<close>, which the product converts to a float; the difference
  with a float \<open>v\<close> is the double nearest to \<open>c - v\<close>. In both cases the first factor
  of the product is the double nearest to \<open>c - v\<close>, and an \<^verbatim>\<open>int\<close> difference beyond
  the double range raises \<^verbatim>\<open>OverflowError\<close> in the product. The difference with a
  string or \<^verbatim>\<open>None\<close> raises \<^verbatim>\<open>TypeError\<close>.
\<close>

definition py_rsub_mul :: "real \<Rightarrow> pyval \<Rightarrow> real \<Rightarrow> exn + real" where
  "py_rsub_mul c v k =
     (case v of Num r \<Rightarrow> bindE (to_float (c - r)) (\<lambda>x. Inr (fmul x k))
              | Str _ \<Rightarrow> Inl TypeError
              | NoneVal \<Rightarrow> Inl TypeError)"

text \<open>
  The order comparisons of a value with a numeric constant: between a string or
  \<^verbatim>\<open>None\<close> and a number they raise \<^verbatim>\<open>TypeError\<close>.
\<close>

definition py_ge :: "pyval \<Rightarrow> real \<Rightarrow> exn + bool" where
  "py_ge v c = (case v of Num r \<Rightarrow> Inr (r \<ge> c) | Str _ \<Rightarrow> Inl TypeError | NoneVal \<Rightarrow> Inl TypeError)"

definition py_gt :: "pyval \<Rightarrow> real \<Rightarrow> exn + bool" where
  "py_gt v c = (case v of Num r \<Rightarrow> Inr (r > c) | Str _ \<Rightarrow> Inl TypeError | NoneVal \<Rightarrow> Inl TypeError)"

definition py_le :: "pyval \<Rightarrow> real \<Rightarrow> exn + bool" where
  "py_le v c = (case v of Num r \<Rightarrow> Inr (r \<le> c) | Str _ \<Rightarrow> Inl TypeError | NoneVal \<Rightarrow> Inl TypeError)"

definition py_lt :: "pyval \<Rightarrow> real \<Rightarrow> exn + bool" where
  "py_lt v c = (case v of Num r \<Rightarrow> Inr (r < c) | Str _ \<Rightarrow> Inl TypeError | NoneVal \<Rightarrow> Inl TypeError)"

section \<open>The preprocessor: \<^verbatim>\<open>DataPreprocessor.preprocess\<close>\<close>

definition sleep_mapping :: "(string \<times> pyval) list" where
  "sleep_mapping =
     [(''Less than 5 hours'', Num 4), (''5-6 hours'', Num 5.5), (''7-8 hours'', Num 7.5),
      (''More than 8 hours'', Num 9), (''Others'', Num 6.0)]"

definition diet_mapping :: "(string \<times> pyval) list" where
  "diet_mapping =
     [(''Unhealthy'', Num 1), (''Moderate'', Num 2), (''Healthy'', Num 3), (''Others'', Num 2)]"

definition gender_encoder :: "(string \<times> pyval) list" where
  "gender_encoder = [(''Male'', Num 0), (''Female'', Num 1), (''Other'', Num 2)]"

definition profession_encoder :: "(string \<times> pyval) list" where
  "profession_encoder =
     [(''Student'', Num 0), (''Employee'', Num 1), (''Self-employed'', Num 2),
      (''Unemployed'', Num 3), (''Other'', Num 4)]"

definition suicidal_encoder :: "(string \<times> pyval) list" where
  "suicidal_encoder = [(''No'', Num 0), (''Yes'', Num 1)]"

definition family_encoder :: "(string \<times> pyval) list" where
  "family_encoder = [(''No'', Num 0), (''Yes'', Num 1)]"

definition numerical_features :: "string list" where
  "numerical_features =
     [''age'', ''academic_pressure'', ''work_pressure'', ''cgpa'',
      ''study_satisfaction'', ''job_satisfaction'', ''work_study_hours'', ''financial_stress'']"

definition feature_mapping :: "(string \<times> string) list" where
  "feature_mapping =
     [(''age'', ''Age''),
      (''academic_pressure'', ''Academic Pressure''),
      (''work_pressure'', ''Work Pressure''),
      (''cgpa'', ''CGPA''),
      (''study_satisfaction'', ''Study Satisfaction''),
      (''job_satisfaction'', ''Job Satisfaction''),
      (''work_study_hours'', ''Work/Study Hours''),
      (''financial_stress'', ''Financial Stress'')]"

text \<open>
  The loop over \<^verbatim>\<open>numerical_features\<close>. In
  \<^verbatim>\<open>processed[feature_mapping[feature]] = float(data[feature])\<close> Python evaluates the
  right-hand side first, then the subscript of the target.
\<close>

fun numerical_loop ::
  "(string \<Rightarrow> real option) \<Rightarrow> pydict \<Rightarrow> string list \<Rightarrow> pydict \<Rightarrow> exn + pydict" where
  "numerical_loop str_to_float data [] processed = Inr processed"
| "numerical_loop str_to_float data (feature # rest) processed =
     (case data feature of
        Some v \<Rightarrow>
          (case py_float str_to_float v of
             Inl e \<Rightarrow> Inl e
           | Inr x \<Rightarrow>
               (case dict_index (map_of feature_mapping) feature of
                  Inl e \<Rightarrow> Inl e
                | Inr name \<Rightarrow> numerical_loop str_to_float data rest (processed(name \<mapsto> Num x))))
      | None \<Rightarrow>
          (case dict_index (map_of feature_mapping) feature of
             Inl e \<Rightarrow> Inl e
           | Inr name \<Rightarrow> numerical_loop str_to_float data rest (processed(name \<mapsto> Num 0))))"

text \<open>
  The expression inside the \<^verbatim>\<open>try\<close> of \<^verbatim>\<open>_calculate_risk_score\<close>: the six products
  are evaluated from left to right and added from left to right, each operation in
  double arithmetic.
\<close>

definition risk_score_sum :: "pydict \<Rightarrow> exn + real" where
  "risk_score_sum processed_data =
     bindE (py_mul (dict_get processed_data ''Academic Pressure'' (Num 0)) (to_double 0.2)) (\<lambda>t1.
     bindE (py_mul (dict_get processed_data ''Financial Stress'' (Num 0)) (to_double 0.2)) (\<lambda>t2.
     bindE (py_rsub_mul 5 (dict_get processed_data ''Sleep_Hours'' (Num 7.5)) (to_double 0.1)) (\<lambda>t3.
     bindE (py_rsub_mul 4 (dict_get processed_data ''Diet_Score'' (Num 2)) (to_double 0.1)) (\<lambda>t4.
     bindE (py_mul (dict_get processed_data ''Have you ever had suicidal thoughts ?_encoded'' (Num 0))
              (to_double 0.3)) (\<lambda>t5.
     bindE (py_mul (dict_get processed_data ''Family History of Mental Illness_encoded'' (Num 0))
              (to_double 0.1)) (\<lambda>t6.
     Inr (fadd (fadd (fadd (fadd (fadd t1 t2) t3) t4) t5) t6)))))))"

text \<open>
  \<^verbatim>\<open>_calculate_risk_score\<close>: \<^verbatim>\<open>float(risk_score)\<close> of a float is that float, and the
  \<^verbatim>\<open>except Exception\<close> branch returns \<^verbatim>\<open>0.0\<close>.
\<close>

definition calculate_risk_score :: "pydict \<Rightarrow> real" where
  "calculate_risk_score processed_data =
     (case risk_score_sum processed_data of Inl e \<Rightarrow> 0 | Inr risk_score \<Rightarrow> risk_score)"

text \<open>
  The statements of \<^verbatim>\<open>preprocess\<close> after the numerical loop: they assign to
  \<^verbatim>\<open>processed\<close> one key after the other.
\<close>

definition encode_categoricals :: "pydict \<Rightarrow> pydict \<Rightarrow> pydict" where
  "encode_categoricals data processed =
     (let sleep_duration = dict_get data ''sleep_duration'' (Str ''7-8 hours'');
          p1 = processed(''Sleep_Hours'' \<mapsto> table_get sleep_mapping sleep_duration (Num 7.5));
          dietary_habits = dict_get data ''dietary_habits'' (Str ''Moderate'');
          p2 = p1(''Diet_Score'' \<mapsto> table_get diet_mapping dietary_habits (Num 2));
          gender = dict_get data ''gender'' (Str ''Male'');
          p3 = p2(''Gender_encoded'' \<mapsto> table_get gender_encoder gender (Num 0));
          profession = dict_get data ''profession'' (Str ''Student'');
          p4 = p3(''Profession_encoded'' \<mapsto> table_get profession_encoder profession (Num 0));
          suicidal_thoughts = dict_get data ''suicidal_thoughts'' (Str ''No'');
          p5 = p4(''Have you ever had suicidal thoughts ?_encoded'' \<mapsto>
                    table_get suicidal_encoder suicidal_thoughts (Num 0));
          family_history = dict_get data ''family_history'' (Str ''No'');
          p6 = p5(''Family History of Mental Illness_encoded'' \<mapsto>
                    table_get family_encoder family_history (Num 0))
      in p6)"

text \<open>
  \<^verbatim>\<open>risk_score = self._calculate_risk_score(processed)\<close> and
  \<^verbatim>\<open>processed['Risk_Score'] = risk_score\<close>.
\<close>

definition add_risk_score :: "pydict \<Rightarrow> pydict" where
  "add_risk_score processed =
     (let risk_score = calculate_risk_score processed
      in processed(''Risk_Score'' \<mapsto> Num risk_score))"

text \<open>
  \<^verbatim>\<open>preprocess\<close>: its \<^verbatim>\<open>except\<close> branch logs and raises the exception again, so an
  error of the body is the error of the call.
\<close>

definition preprocess :: "(string \<Rightarrow> real option) \<Rightarrow> pydict \<Rightarrow> exn + pydict" where
  "preprocess str_to_float data =
     bindE (numerical_loop str_to_float data numerical_features Map.empty) (\<lambda>p0.
       Inr (add_risk_score (encode_categoricals data p0)))"

section \<open>The risk factor analyzer: \<^verbatim>\<open>DataPreprocessor.analyze_risk_factors\<close>\<close>

text \<open>
  A risk factor is a dictionary with the keys \<^verbatim>\<open>factor\<close>, \<^verbatim>\<open>value\<close>, \<^verbatim>\<open>impact\<close> and
  \<^verbatim>\<open>description\<close>. Some descriptions are f-strings that format the value; Python's
  formatting of a value is the parameter \<open>fmt\<close>.
\<close>

definition mk_factor :: "string \<Rightarrow> pyval \<Rightarrow> string \<Rightarrow> string \<Rightarrow> pydict" where
  "mk_factor name v imp descr =
     [''factor'' \<mapsto> Str name, ''value'' \<mapsto> v, ''impact'' \<mapsto> Str imp, ''description'' \<mapsto> Str descr]"

text \<open>
  Each \<^verbatim>\<open>if\<close> block of the function is one rule: it reads the input and appends at most
  one factor to \<^verbatim>\<open>risk_factors\<close>, or raises where a comparison is not defined.
\<close>

definition rule_academic_pressure ::
  "(pyval \<Rightarrow> string) \<Rightarrow> pydict \<Rightarrow> pydict list \<Rightarrow> exn + pydict list" where
  "rule_academic_pressure fmt data risk_factors =
     (let academic_pressure = dict_get data ''academic_pressure'' (Num 0) in
      bindE (py_ge academic_pressure 4) (\<lambda>emit.
        if emit then
          bindE (py_ge academic_pressure 5) (\<lambda>high.
            Inr (risk_factors @
              [mk_factor ''High Academic Pressure'' academic_pressure
                 (if high then ''High'' else ''Medium'')
                 (''Academic pressure level of '' @ fmt academic_pressure @
                  ''/5 indicates significant stress'')]))
        else Inr risk_factors))"

definition rule_financial_stress ::
  "(pyval \<Rightarrow> string) \<Rightarrow> pydict \<Rightarrow> pydict list \<Rightarrow> exn + pydict list" where
  "rule_financial_stress fmt data risk_factors =
     (let financial_stress = dict_get data ''financial_stress'' (Num 0) in
      bindE (py_ge financial_stress 4) (\<lambda>emit.
        if emit then
          bindE (py_ge financial_stress 5) (\<lambda>high.
            Inr (risk_factors @
              [mk_factor ''High Financial Stress'' financial_stress
                 (if high then ''High'' else ''Medium'')
                 (''Financial stress level of '' @ fmt financial_stress @
                  ''/5 indicates significant financial pressure'')]))
        else Inr risk_factors))"

definition rule_sleep ::
  "(pyval \<Rightarrow> string) \<Rightarrow> pydict \<Rightarrow> pydict list \<Rightarrow> exn + pydict list" where
  "rule_sleep fmt data risk_factors =
     (let sleep_duration = dict_get data ''sleep_duration'' (Str ''7-8 hours'') in
      if sleep_duration \<in> set [Str ''Less than 5 hours'', Str ''5-6 hours''] then
        Inr (risk_factors @
          [mk_factor ''Insufficient Sleep'' sleep_duration
             (if sleep_duration = Str ''Less than 5 hours'' then ''High'' else ''Medium'')
             (''Sleep duration of '' @ fmt sleep_duration @
              '' may contribute to mental health issues'')])
      else Inr risk_factors)"

definition rule_diet :: "pydict \<Rightarrow> pydict list \<Rightarrow> exn + pydict list" where
  "rule_diet data risk_factors =
     (let dietary_habits = dict_get data ''dietary_habits'' (Str ''Moderate'') in
      if dietary_habits = Str ''Unhealthy'' then
        Inr (risk_factors @
          [mk_factor ''Unhealthy Diet'' dietary_habits ''Medium''
             ''Unhealthy dietary habits may negatively impact mental health''])
      else Inr risk_factors)"

definition rule_suicidal_thoughts :: "pydict \<Rightarrow> pydict list \<Rightarrow> exn + pydict list" where
  "rule_suicidal_thoughts data risk_factors =
     (let suicidal_thoughts = dict_get data ''suicidal_thoughts'' (Str ''No'') in
      if suicidal_thoughts = Str ''Yes'' then
        Inr (risk_factors @
          [mk_factor ''History of Suicidal Thoughts'' suicidal_thoughts ''Critical''
             ''Previous suicidal thoughts indicate high risk and require immediate attention''])
      else Inr risk_factors)"

definition rule_family_history :: "pydict \<Rightarrow> pydict list \<Rightarrow> exn + pydict list" where
  "rule_family_history data risk_factors =
     (let family_history = dict_get data ''family_history'' (Str ''No'') in
      if family_history = Str ''Yes'' then
        Inr (risk_factors @
          [mk_factor ''Family History of Mental Illness'' family_history ''Medium''
             ''Family history of mental illness increases risk of developing similar conditions''])
      else Inr risk_factors)"

definition rule_work_pressure ::
  "(pyval \<Rightarrow> string) \<Rightarrow> pydict \<Rightarrow> pydict list \<Rightarrow> exn + pydict list" where
  "rule_work_pressure fmt data risk_factors =
     (let work_pressure = dict_get data ''work_pressure'' (Num 0) in
      bindE (py_ge work_pressure 4) (\<lambda>emit.
        if emit then
          bindE (py_ge work_pressure 5) (\<lambda>high.
            Inr (risk_factors @
              [mk_factor ''High Work Pressure'' work_pressure
                 (if high then ''High'' else ''Medium'')
                 (''Work pressure level of '' @ fmt work_pressure @
                  ''/5 indicates significant workplace stress'')]))
        else Inr risk_factors))"

definition rule_study_satisfaction ::
  "(pyval \<Rightarrow> string) \<Rightarrow> pydict \<Rightarrow> pydict list \<Rightarrow> exn + pydict list" where
  "rule_study_satisfaction fmt data risk_factors =
     (let study_satisfaction = dict_get data ''study_satisfaction'' (Num 0) in
      bindE (py_le study_satisfaction 2) (\<lambda>emit.
        if emit then
          Inr (risk_factors @
            [mk_factor ''Low Study Satisfaction'' study_satisfaction ''Medium''
               (''Study satisfaction level of '' @ fmt study_satisfaction @
                ''/5 indicates dissatisfaction with academic life'')])
        else Inr risk_factors))"

text \<open>\<^verbatim>\<open>job_satisfaction <= 2 and job_satisfaction > 0\<close>: \<^verbatim>\<open>and\<close> evaluates its right
  operand only when the left one is true.\<close>

definition rule_job_satisfaction ::
  "(pyval \<Rightarrow> string) \<Rightarrow> pydict \<Rightarrow> pydict list \<Rightarrow> exn + pydict list" where
  "rule_job_satisfaction fmt data risk_factors =
     (let job_satisfaction = dict_get data ''job_satisfaction'' (Num 0) in
      bindE (py_le job_satisfaction 2) (\<lambda>low.
        bindE (if low then py_gt job_satisfaction 0 else Inr False) (\<lambda>emit.
          if emit then
            Inr (risk_factors @
              [mk_factor ''Low Job Satisfaction'' job_satisfaction ''Medium''
                 (''Job satisfaction level of '' @ fmt job_satisfaction @
                  ''/5 indicates workplace dissatisfaction'')])
          else Inr risk_factors)))"

definition rule_cgpa ::
  "(pyval \<Rightarrow> string) \<Rightarrow> pydict \<Rightarrow> pydict list \<Rightarrow> exn + pydict list" where
  "rule_cgpa fmt data risk_factors =
     (let cgpa = dict_get data ''cgpa'' (Num 0) in
      bindE (py_lt cgpa 6.0) (\<lambda>emit.
        if emit then
          Inr (risk_factors @
            [mk_factor ''Low Academic Performance'' cgpa ''Medium''
               (''CGPA of '' @ fmt cgpa @
                '' may indicate academic struggles affecting mental health'')])
        else Inr risk_factors))"

text \<open>The body of the \<^verbatim>\<open>try\<close>: the rules in the order of the source, on the list so far.\<close>

definition risk_rules :: "(pyval \<Rightarrow> string) \<Rightarrow> pydict \<Rightarrow> exn + pydict list" where
  "risk_rules fmt data =
     bindE (rule_academic_pressure fmt data []) (\<lambda>r1.
     bindE (rule_financial_stress fmt data r1) (\<lambda>r2.
     bindE (rule_sleep fmt data r2) (\<lambda>r3.
     bindE (rule_diet data r3) (\<lambda>r4.
     bindE (rule_suicidal_thoughts data r4) (\<lambda>r5.
     bindE (rule_family_history data r5) (\<lambda>r6.
     bindE (rule_work_pressure fmt data r6) (\<lambda>r7.
     bindE (rule_study_satisfaction fmt data r7) (\<lambda>r8.
     bindE (rule_job_satisfaction fmt data r8) (\<lambda>r9.
     rule_cgpa fmt data r9)))))))))"

text \<open>\<^verbatim>\<open>analyze_risk_factors\<close>: the \<^verbatim>\<open>except Exception\<close> branch returns \<^verbatim>\<open>[]\<close>.\<close>

definition analyze_risk_factors :: "(pyval \<Rightarrow> string) \<Rightarrow> pydict \<Rightarrow> pydict list" where
  "analyze_risk_factors fmt data =
     (case risk_rules fmt data of Inl e \<Rightarrow> [] | Inr risk_factors \<Rightarrow> risk_factors)"

section \<open>The recommendation engine: \<^verbatim>\<open>DataPreprocessor.generate_recommendations\<close>\<close>

text \<open>\<^verbatim>\<open>needle in haystack\<close> on strings: \<open>needle\<close> occurs as a contiguous part.\<close>

fun str_contains :: "string \<Rightarrow> string \<Rightarrow> bool" where
  "str_contains needle [] = (needle = [])"
| "str_contains needle (c # cs) = (prefix needle (c # cs) \<or> str_contains needle cs)"

text \<open>\<^verbatim>\<open>'...' in factor\<close> raises \<^verbatim>\<open>TypeError\<close> when \<^verbatim>\<open>factor\<close> is a number or \<^verbatim>\<open>None\<close>.\<close>

definition py_in :: "string \<Rightarrow> pyval \<Rightarrow> exn + bool" where
  "py_in needle v =
     (case v of Str s \<Rightarrow> Inr (str_contains needle s)
              | Num _ \<Rightarrow> Inl TypeError
              | NoneVal \<Rightarrow> Inl TypeError)"

text \<open>The seed recommendations, chosen by the probability band.\<close>

definition general_recommendations :: "pyval \<Rightarrow> exn + string list" where
  "general_recommendations probability =
     bindE (py_gt probability 0.7) (\<lambda>high.
       if high then
         Inr [''Seek immediate professional help from a mental health counselor or therapist'',
              ''Consider reaching out to a trusted friend or family member for support'',
              ''Contact a mental health helpline if you're in crisis'']
       else
         bindE (py_gt probability 0.4) (\<lambda>medium.
           if medium then
             Inr [''Consider speaking with a mental health professional for assessment'',
                  ''Focus on stress management techniques and self-care'',
                  ''Maintain regular sleep and exercise routines'']
           else
             Inr [''Continue maintaining good mental health practices'',
                  ''Stay connected with friends and family'',
                  ''Engage in activities you enjoy'']))"

text \<open>
  The body of the loop over \<^verbatim>\<open>risk_factors\<close>: the strings that the first matching branch
  of the \<^verbatim>\<open>if\<close>/\<open>elif\<close> chain appends, none when no branch matches.
\<close>

definition specific_recommendations :: "pydict \<Rightarrow> exn + string list" where
  "specific_recommendations risk_factor =
     bindE (dict_index risk_factor ''factor'') (\<lambda>factor.
     bindE (py_in ''Academic Pressure'' factor) (\<lambda>b1.
       if b1 then
         Inr [''Consider academic counseling or tutoring to manage study stress'',
              ''Break down large assignments into smaller, manageable tasks'']
       else
     bindE (py_in ''Financial Stress'' factor) (\<lambda>b2.
       if b2 then
         Inr [''Seek financial counseling or speak with a financial advisor'',
              ''Look into scholarships, grants, or part-time work opportunities'']
       else
     bindE (py_in ''Sleep'' factor) (\<lambda>b3.
       if b3 then
         Inr [''Establish a consistent sleep schedule and bedtime routine'',
              ''Avoid screens 1 hour before bedtime and create a relaxing environment'']
       else
     bindE (py_in ''Diet'' factor) (\<lambda>b4.
       if b4 then
         Inr [''Focus on a balanced diet with regular meals'',
              ''Consider consulting a nutritionist for dietary guidance'']
       else
     bindE (py_in ''Suicidal Thoughts'' factor) (\<lambda>b5.
       if b5 then
         Inr [''URGENT: Contact a mental health professional immediately'',
              ''Call a suicide prevention hotline if you're in crisis'']
       else
     bindE (py_in ''Family History'' factor) (\<lambda>b6.
       if b6 then
         Inr [''Be aware of your family history and monitor your mental health regularly'',
              ''Consider preventive mental health counseling'']
       else
     bindE (py_in ''Work Pressure'' factor) (\<lambda>b7.
       if b7 then
         Inr [''Discuss workload with your supervisor or academic advisor'',
              ''Practice time management and delegation techniques'']
       else
     bindE (py_in ''Satisfaction'' factor) (\<lambda>b8.
       if b8 then
         Inr [''Explore new interests or hobbies to increase life satisfaction'',
              ''Consider career counseling or academic guidance'']
       else
     bindE (py_in ''Academic Performance'' factor) (\<lambda>b9.
       if b9 then
         Inr [''Seek academic support services or tutoring'',
              ''Meet with academic advisors to discuss study strategies'']
       else Inr []))))))))))"

fun risk_factor_loop :: "pydict list \<Rightarrow> string list \<Rightarrow> exn + string list" where
  "risk_factor_loop [] recommendations = Inr recommendations"
| "risk_factor_loop (risk_factor # rest) recommendations =
     (case specific_recommendations risk_factor of
        Inl e \<Rightarrow> Inl e
      | Inr recs \<Rightarrow> risk_factor_loop rest (recommendations @ recs))"

text \<open>The loop that removes duplicates, with its set \<^verbatim>\<open>seen\<close> and its list
  \<^verbatim>\<open>unique_recommendations\<close>.\<close>

fun unique_loop :: "string list \<Rightarrow> string set \<Rightarrow> string list \<Rightarrow> string list" where
  "unique_loop [] seen unique_recommendations = unique_recommendations"
| "unique_loop (rec # rest) seen unique_recommendations =
     (if rec \<notin> seen then unique_loop rest (insert rec seen) (unique_recommendations @ [rec])
      else unique_loop rest seen unique_recommendations)"

definition recommendations_body :: "pyval \<Rightarrow> pydict list \<Rightarrow> exn + string list" where
  "recommendations_body probability risk_factors =
     bindE (general_recommendations probability) (\<lambda>seed.
     bindE (risk_factor_loop risk_factors seed) (\<lambda>recommendations.
       Inr (take 10 (unique_loop recommendations {} []))))"

text \<open>\<^verbatim>\<open>generate_recommendations\<close>: the \<^verbatim>\<open>except Exception\<close> branch returns one fixed
  string. The argument \<^verbatim>\<open>data\<close> is not read.\<close>

definition generate_recommendations :: "pydict \<Rightarrow> pyval \<Rightarrow> pydict list \<Rightarrow> string list" where
  "generate_recommendations data probability risk_factors =
     (case recommendations_body probability risk_factors of
        Inl e \<Rightarrow> [''Please consult with a mental health professional for personalized advice'']
      | Inr recommendations \<Rightarrow> recommendations)"

section \<open>The predictor: \<^verbatim>\<open>MentalHealthPredictor.predict\<close>\<close>



text \<open>The feature columns that \<^verbatim>\<open>_load_models\<close> takes when no file declares them.\<close>

definition default_feature_columns :: "string list" where
  "default_feature_columns =
     [''Age'', ''Academic Pressure'', ''Work Pressure'', ''CGPA'', ''Study Satisfaction'',
      ''Job Satisfaction'', ''Work/Study Hours'', ''Financial Stress'', ''Sleep_Hours'',
      ''Diet_Score'', ''Risk_Score'', ''Gender_encoded'', ''Profession_encoded'',
      ''Have you ever had suicidal thoughts ?_encoded'',
      ''Family History of Mental Illness_encoded'']"



section \<open>The labels of the response: \<^verbatim>\<open>diagnose\<close>\<close>



section \<open>Notions used to state the results\<close>

text \<open>
  The number that the numerical loop stores for a feature: \<open>0.0\<close> for an absent field,
  the coerced value for a present one (read only where the coercion succeeds).
\<close>

definition coerced :: "(string \<Rightarrow> real option) \<Rightarrow> pydict \<Rightarrow> string \<Rightarrow> real" where
  "coerced str_to_float data feature =
     (case data feature of None \<Rightarrow> 0 | Some v \<Rightarrow> projr (py_float str_to_float v))"

definition stored :: "(string \<Rightarrow> real option) \<Rightarrow> pydict \<Rightarrow> string \<Rightarrow> pydict \<Rightarrow> pydict" where
  "stored str_to_float data feature processed =
     processed(the (map_of feature_mapping feature) \<mapsto> Num (coerced str_to_float data feature))"

text \<open>The dictionary \<^verbatim>\<open>processed\<close> as it is when \<^verbatim>\<open>_calculate_risk_score\<close> is called.\<close>

definition mapped :: "(string \<Rightarrow> real option) \<Rightarrow> pydict \<Rightarrow> pydict" where
  "mapped str_to_float data =
     encode_categoricals data (fold (stored str_to_float data) numerical_features Map.empty)"

text \<open>A raw input whose numerical fields, where present, can all be coerced by \<^verbatim>\<open>float\<close>.\<close>

definition coercible :: "(string \<Rightarrow> real option) \<Rightarrow> pydict \<Rightarrow> bool" where
  "coercible str_to_float data =
     (\<forall>feature \<in> set numerical_features.
        case data feature of None \<Rightarrow> True | Some v \<Rightarrow> \<not> isl (py_float str_to_float v))"

text \<open>A finite float: a real that is a double and within the range of the doubles.\<close>

definition finite_double :: "real \<Rightarrow> bool" where
  "finite_double x \<longleftrightarrow> to_double x = x \<and> \<bar>x\<bar> \<le> max_double"

text \<open>A parser of float literals returns finite floats.\<close>

definition float_parser :: "(string \<Rightarrow> real option) \<Rightarrow> bool" where
  "float_parser str_to_float \<longleftrightarrow> (\<forall>s r. str_to_float s = Some r \<longrightarrow> finite_double r)"

text \<open>A parser that knows the one literal \<^verbatim>\<open>5.0\<close>, for the concrete inputs below.\<close>

definition five_parser :: "string \<Rightarrow> real option" where
  "five_parser s = (if s = ''5.0'' then Some 5 else None)"

text \<open>
  The formula \<open>0.2 * ap + 0.2 * fs + 0.1 * (5 - sh) + 0.1 * (4 - ds) + 0.3 * st +
  0.1 * fh\<close> of the risk score as the source writes and Python evaluates it on floats:
  the constants are doubles, every product, difference and sum is rounded, and the
  sum is taken from left to right.
\<close>

definition risk_formula :: "real \<Rightarrow> real \<Rightarrow> real \<Rightarrow> real \<Rightarrow> real \<Rightarrow> real \<Rightarrow> real" where
  "risk_formula ap fs sh ds st fh =
     fadd (fadd (fadd (fadd (fadd (fmul ap (to_double 0.2)) (fmul fs (to_double 0.2)))
                            (fmul (fsub 5 sh) (to_double 0.1)))
                      (fmul (fsub 4 ds) (to_double 0.1)))
                (fmul st (to_double 0.3)))
          (fmul fh (to_double 0.1))"

text \<open>The products and the partial sums of the formula, in the order of evaluation.\<close>

definition risk_formula_steps :: "real \<Rightarrow> real \<Rightarrow> real \<Rightarrow> real \<Rightarrow> real \<Rightarrow> real \<Rightarrow> real list" where
  "risk_formula_steps ap fs sh ds st fh =
     (let t1 = fmul ap (to_double 0.2); t2 = fmul fs (to_double 0.2); s2 = fadd t1 t2;
          d3 = fsub 5 sh; t3 = fmul d3 (to_double 0.1); s3 = fadd s2 t3;
          d4 = fsub 4 ds; t4 = fmul d4 (to_double 0.1); s4 = fadd s3 t4;
          t5 = fmul st (to_double 0.3); s5 = fadd s4 t5;
          t6 = fmul fh (to_double 0.1); s6 = fadd s5 t6
      in [t1, t2, s2, d3, t3, s3, d4, t4, s4, t5, s5, t6, s6])"

text \<open>The fields that the analyzer compares with a number.\<close>

definition compared_fields :: "string list" where
  "compared_fields =
     [''academic_pressure'', ''financial_stress'', ''work_pressure'', ''study_satisfaction'',
      ''job_satisfaction'', ''cgpa'']"

definition numbers_where_compared :: "pydict \<Rightarrow> bool" where
  "numbers_where_compared data =
     (\<forall>k \<in> set compared_fields. case data k of None \<Rightarrow> True | Some v \<Rightarrow> is_Num v)"

text \<open>The factor names in the order of the rules.\<close>

definition rule_order :: "string list" where
  "rule_order =
     [''High Academic Pressure'', ''High Financial Stress'', ''Insufficient Sleep'',
      ''Unhealthy Diet'', ''History of Suicidal Thoughts'', ''Family History of Mental Illness'',
      ''High Work Pressure'', ''Low Study Satisfaction'', ''Low Job Satisfaction'',
      ''Low Academic Performance'']"

text \<open>The one factor that the rule on suicidal thoughts can append.\<close>

definition suicidal_factor :: pydict where
  "suicidal_factor =
     mk_factor ''History of Suicidal Thoughts'' (Str ''Yes'') ''Critical''
       ''Previous suicidal thoughts indicate high risk and require immediate attention''"

text \<open>A factor is about suicidal thoughts or of critical impact.\<close>

definition suicidal_or_critical :: "pydict \<Rightarrow> bool" where
  "suicidal_or_critical d =
     (d ''factor'' = Some (Str ''History of Suicidal Thoughts'') \<or>
      d ''impact'' = Some (Str ''Critical''))"

text \<open>What a rule other than the one on suicidal thoughts appends: nothing, or one factor
  of the rule's name whose impact is High or Medium.\<close>

definition appended :: "string \<Rightarrow> pydict list \<Rightarrow> bool" where
  "appended name fs =
     (fs = [] \<or>
      (\<exists>d. fs = [d] \<and> d ''factor'' = Some (Str name) \<and>
           (d ''impact'' = Some (Str ''High'') \<or> d ''impact'' = Some (Str ''Medium''))))"

text \<open>
  A stand-in for Python's formatting in the concrete inputs below: a string is itself,
  the digits of a number are not modelled.
\<close>

definition example_fmt :: "pyval \<Rightarrow> string" where
  "example_fmt v = (case v of Str s \<Rightarrow> s | Num _ \<Rightarrow> ''<number>'' | NoneVal \<Rightarrow> ''None'')"

text \<open>Raw answers used as concrete inputs below.\<close>

definition no_float :: "string \<Rightarrow> real option" where
  "no_float s = None"

definition stressed_student :: pydict where
  "stressed_student =
     [''academic_pressure'' \<mapsto> Num 5, ''financial_stress'' \<mapsto> Num 5,
      ''sleep_duration'' \<mapsto> Str ''Less than 5 hours'', ''dietary_habits'' \<mapsto> Str ''Unhealthy'',
      ''suicidal_thoughts'' \<mapsto> Str ''Yes'', ''family_history'' \<mapsto> Str ''Yes'',
      ''work_pressure'' \<mapsto> Num 3, ''study_satisfaction'' \<mapsto> Num 3,
      ''job_satisfaction'' \<mapsto> Num 0, ''cgpa'' \<mapsto> Num 7.0]"

text \<open>The same answers with the financial stress given as text.\<close>

definition stressed_student_text :: pydict where
  "stressed_student_text = stressed_student(''financial_stress'' \<mapsto> Str ''5.0'')"

definition malformed_cgpa :: pydict where
  "malformed_cgpa =
     [''academic_pressure'' \<mapsto> Num 5, ''suicidal_thoughts'' \<mapsto> Str ''Yes'',
      ''cgpa'' \<mapsto> Str ''N/A'']"

text \<open>Two factors as the analyzer emits them for low satisfaction with study and job.\<close>

definition dissatisfied :: "pydict list" where
  "dissatisfied =
     [mk_factor ''Low Study Satisfaction'' (Num 2) ''Medium''
        ''Study satisfaction level of 2.0/5 indicates dissatisfaction with academic life'',
      mk_factor ''Low Job Satisfaction'' (Num 1) ''Medium''
        ''Job satisfaction level of 1.0/5 indicates workplace dissatisfaction'']"




section \<open>Double arithmetic: lemmas\<close>

lemma to_double_unfold:
  "to_double x =
     (let s = nat (max (bitlen \<lfloor>\<bar>x\<bar> * 2 ^ 1074\<rfloor> - 53) 0)
      in of_int (round_half_even (x * 2 ^ 1074 / 2 ^ s)) * 2 ^ s / 2 ^ 1074)"
  by (simp add: to_double_def round_binary_def)

lemma round_half_even_eqI:
  assumes "\<bar>y - of_int m\<bar> < 1 / 2"
  shows "round_half_even y = m"
proof (cases "of_int m \<le> y")
  case True
  with assms have "\<lfloor>y\<rfloor> = m" by (intro floor_unique) linarith+
  with assms True show ?thesis by (simp add: round_half_even_def Let_def)
next
  case False
  with assms have f: "\<lfloor>y\<rfloor> = m - 1" by (intro floor_unique) (simp; linarith)+
  from assms False have "1 / 2 < y - of_int (m - 1)" by simp
  with f show ?thesis by (simp add: round_half_even_def Let_def)
qed

lemma to_double_zero: "to_double 0 = 0"
  by (simp add: to_double_unfold round_half_even_def)

lemma to_double_binade:
  fixes k :: nat
  assumes k: "k \<le> 1074"
    and lo: "2 ^ 52 \<le> \<bar>x\<bar> * 2 ^ k"
    and hi: "\<bar>x\<bar> * 2 ^ k < 2 ^ 53"
  shows "to_double x = of_int (round_half_even (x * 2 ^ k)) / 2 ^ k"
proof -
  define s where "s = 1074 - k"
  have p: "(2::real) ^ 1074 = 2 ^ k * 2 ^ s"
    using k by (simp add: s_def flip: power_add)
  let ?N = "\<lfloor>\<bar>x\<bar> * 2 ^ 1074\<rfloor>"
  have "(2::real) ^ (52 + s) \<le> \<bar>x\<bar> * 2 ^ 1074"
    using lo unfolding p power_add by (simp add: mult.assoc[symmetric])
  then have "of_int (2 ^ (52 + s)) \<le> \<bar>x\<bar> * 2 ^ 1074" by simp
  then have lo': "2 ^ (52 + s) \<le> ?N" by (simp only: le_floor_iff)
  have "\<bar>x\<bar> * 2 ^ 1074 < 2 ^ (53 + s)"
    using hi unfolding p power_add by (simp add: mult.assoc[symmetric])
  then have "\<bar>x\<bar> * 2 ^ 1074 < of_int (2 ^ (53 + s))" by simp
  then have hi': "?N < 2 ^ (53 + s)" by (simp only: floor_less_iff)
  have "bitlen ?N \<le> int (53 + s)"
    unfolding bitlen_le_iff_power nat_int using hi' by (simp only: of_nat_0_le_iff simp_thms)
  moreover have "nat (int (53 + s)) - 1 = 52 + s" by simp
  then have "int (53 + s) \<le> bitlen ?N"
    unfolding bitlen_ge_iff_power using lo' by (simp only: simp_thms)
  ultimately have b: "bitlen ?N = int (53 + s)" by (rule antisym)
  have s: "nat (max (bitlen ?N - 53) 0) = s" unfolding b by simp
  have y: "x * 2 ^ 1074 / 2 ^ s = x * 2 ^ k" unfolding p by simp
  have "to_double x = of_int (round_half_even (x * 2 ^ k)) * 2 ^ s / 2 ^ 1074"
    unfolding to_double_unfold Let_def s y ..
  also have "\<dots> = of_int (round_half_even (x * 2 ^ k)) / (2::real) ^ k" unfolding p by simp
  finally show ?thesis .
qed

lemma to_double_eqI:
  fixes k :: nat and m :: int
  assumes k: "k \<le> 1074"
    and lo: "2 ^ 52 \<le> \<bar>x\<bar> * 2 ^ k"
    and hi: "\<bar>x\<bar> * 2 ^ k < 2 ^ 53"
    and m: "\<bar>x * 2 ^ k - of_int m\<bar> < 1 / 2"
  shows "to_double x = of_int m / 2 ^ k"
  unfolding to_double_binade[OF k lo hi] round_half_even_eqI[OF m] ..




lemma round_half_even_of_int: "round_half_even (of_int n) = n"
  by (rule round_half_even_eqI) simp

lemma round_half_even_ge_floor: "\<lfloor>y\<rfloor> \<le> round_half_even y"
  by (simp add: round_half_even_def Let_def)

lemma round_half_even_le_ceiling: "round_half_even y \<le> \<lceil>y\<rceil>"
proof (cases "y = of_int \<lfloor>y\<rfloor>")
  case True
  then have "round_half_even y = \<lfloor>y\<rfloor>"
    by (metis round_half_even_of_int)
  then show ?thesis by (simp add: floor_le_ceiling)
next
  case False
  then have "\<lceil>y\<rceil> = \<lfloor>y\<rfloor> + 1" by (simp add: ceiling_altdef)
  then show ?thesis by (simp add: round_half_even_def Let_def)
qed

lemma to_double_exactI:
  fixes a :: int and u :: nat
  assumes a: "x * 2 ^ 1074 = of_int a"
    and u: "nat (max (bitlen \<bar>a\<bar> - 53) 0) = u"
    and dvd: "2 ^ u dvd a"
  shows "to_double x = x"
proof -
  from a have "\<bar>x\<bar> * 2 ^ 1074 = of_int \<bar>a\<bar>" by (simp flip: abs_mult add: abs_if)
  then have N: "\<lfloor>\<bar>x\<bar> * 2 ^ 1074\<rfloor> = \<bar>a\<bar>" by (simp only: floor_of_int)
  from dvd obtain q where q: "a = q * 2 ^ u" by (auto elim: dvdE simp: mult.commute)
  have "x * 2 ^ 1074 / 2 ^ u = of_int q" unfolding a q by simp
  then have r: "round_half_even (x * 2 ^ 1074 / 2 ^ u) = q"
    by (simp only: round_half_even_of_int)
  have "to_double x = of_int q * 2 ^ u / 2 ^ 1074"
    unfolding to_double_unfold Let_def N u r ..
  also have "\<dots> = of_int a / 2 ^ 1074" unfolding q by simp
  also have "\<dots> = x" unfolding a[symmetric] by simp
  finally show ?thesis .
qed

lemma to_double_idem: "to_double (to_double x) = to_double x"
proof -
  let ?P = "(2::real) ^ 1074"
  let ?N = "\<lfloor>\<bar>x\<bar> * ?P\<rfloor>"
  define s where "s = nat (max (bitlen ?N - 53) 0)"
  define y where "y = x * ?P / 2 ^ s"
  define m where "m = round_half_even y"
  have d: "to_double x = of_int m * 2 ^ s / ?P"
    unfolding to_double_unfold Let_def s_def y_def m_def ..
  have N0: "0 \<le> ?N" by simp
  have bl: "bitlen ?N \<le> 53 + int s" unfolding s_def by simp
  then have "?N < 2 ^ (53 + s)"
    unfolding bitlen_le_iff_power by (simp add: nat_add_distrib)
  then have "\<bar>x\<bar> * ?P < 2 ^ (53 + s)"
    by (simp only: floor_less_iff of_int_power of_int_numeral)
  then have ylt: "\<bar>y\<bar> < 2 ^ 53"
    unfolding y_def by (simp add: abs_mult power_add field_simps)
  have mle: "\<bar>m\<bar> \<le> 2 ^ 53"
  proof -
    from ylt have "y < 2 ^ 53" "- (2 ^ 53) < y" by (simp_all add: abs_less_iff)
    then have "\<lceil>y\<rceil> \<le> 2 ^ 53" "- (2 ^ 53) \<le> \<lfloor>y\<rfloor>"
      by (simp_all add: ceiling_le_iff le_floor_iff)
    with round_half_even_le_ceiling[of y] round_half_even_ge_floor[of y]
    show ?thesis unfolding m_def by linarith
  qed
  have sB: "2 ^ 52 \<le> \<bar>m\<bar>" if "0 < s"
  proof -
    from that have "bitlen ?N = 53 + int s" unfolding s_def by linarith
    then have "53 + int s \<le> bitlen ?N" by simp
    then have "2 ^ (52 + s) \<le> ?N"
      unfolding bitlen_ge_iff_power by (simp add: nat_add_distrib)
    then have "(2::real) ^ (52 + s) \<le> \<bar>x\<bar> * ?P"
      by (simp only: le_floor_iff of_int_power of_int_numeral)
    then have yge: "2 ^ 52 \<le> \<bar>y\<bar>"
      unfolding y_def by (simp add: abs_mult power_add field_simps)
    show ?thesis
    proof (cases "0 \<le> y")
      case True
      with yge have "2 ^ 52 \<le> \<lfloor>y\<rfloor>" by (simp add: le_floor_iff)
      with round_half_even_ge_floor[of y] show ?thesis unfolding m_def by linarith
    next
      case False
      with yge have "y \<le> - (2 ^ 52)" by simp
      then have "\<lceil>y\<rceil> \<le> - (2 ^ 52)" by (simp add: ceiling_le_iff)
      with round_half_even_le_ceiling[of y] show ?thesis unfolding m_def by linarith
    qed
  qed
  have a: "to_double x * ?P = of_int (m * 2 ^ s)" unfolding d by simp
  show ?thesis
  proof (cases "\<bar>m\<bar> = 2 ^ 53")
    case True
    then have "0 < \<bar>m\<bar>" by simp
    then have "bitlen (\<bar>m\<bar> * 2 ^ s) = bitlen \<bar>m\<bar> + int s" by (rule bitlen_pow2)
    also have "bitlen \<bar>m\<bar> = 54" unfolding True
      using bitlen_twopow_add_eq[of 0 53] by simp
    finally have u: "nat (max (bitlen \<bar>m * 2 ^ s\<bar> - 53) 0) = s + 1"
      by (simp add: abs_mult)
    from True have "2 ^ 53 dvd m" by (metis abs_dvd_iff dvd_refl)
    moreover have "(2::int) ^ 1 dvd 2 ^ 53" by (rule le_imp_power_dvd) simp
    ultimately have "(2::int) dvd m" by (metis dvd_trans power_one_right)
    then have "2 * 2 ^ s dvd m * 2 ^ s" by (rule mult_dvd_mono) simp
    then have "2 ^ (s + 1) dvd m * 2 ^ s" by simp
    from to_double_exactI[OF a u this] show ?thesis .
  next
    case False
    with mle have lt: "\<bar>m\<bar> < 2 ^ 53" by simp
    have u: "nat (max (bitlen \<bar>m * 2 ^ s\<bar> - 53) 0) = s"
    proof (cases "m = 0")
      case True
      with sB have "s = 0" by (cases "0 < s") simp_all
      with True show ?thesis by simp
    next
      case False
      then have "0 < \<bar>m\<bar>" by simp
      then have e: "bitlen (\<bar>m\<bar> * 2 ^ s) = bitlen \<bar>m\<bar> + int s" by (rule bitlen_pow2)
      from lt have le: "bitlen \<bar>m\<bar> \<le> 53" unfolding bitlen_le_iff_power by simp
      have "0 < s \<Longrightarrow> 53 \<le> bitlen \<bar>m\<bar>"
        using sB unfolding bitlen_ge_iff_power by simp
      with le e show ?thesis by (cases "0 < s") (simp_all add: abs_mult)
    qed
    have "2 ^ s dvd m * 2 ^ s" by simp
    from to_double_exactI[OF a u this] show ?thesis .
  qed
qed



lemma round_half_even_le_pred:
  assumes "y < of_int n - 1 / 2"
  shows "round_half_even y \<le> n - 1"
proof (cases "\<lfloor>y\<rfloor> \<le> n - 2")
  case True
  then show ?thesis by (simp add: round_half_even_def Let_def)
next
  case False
  from assms have "y < of_int n" by linarith
  then have "\<lfloor>y\<rfloor> < n" by (simp add: floor_less_iff)
  with False have f: "\<lfloor>y\<rfloor> = n - 1" by linarith
  with assms have "y - of_int \<lfloor>y\<rfloor> < 1 / 2" by simp
  with f show ?thesis by (simp add: round_half_even_def Let_def)
qed

lemma round_half_even_ge_succ:
  assumes "- of_int n + 1 / 2 < y"
  shows "- n + 1 \<le> round_half_even y"
proof (cases "- n + 1 \<le> \<lfloor>y\<rfloor>")
  case True
  with round_half_even_ge_floor[of y] show ?thesis by linarith
next
  case False
  from assms have "of_int (- n) \<le> y" by simp
  then have "- n \<le> \<lfloor>y\<rfloor>" by (simp only: le_floor_iff)
  with False have f: "\<lfloor>y\<rfloor> = - n" by linarith
  with assms have "1 / 2 < y - of_int \<lfloor>y\<rfloor>" by simp
  with f show ?thesis by (simp add: round_half_even_def Let_def)
qed


lemma round_binary_le_max:
  fixes prec scale t :: nat
  assumes prec: "0 < prec" and t: "0 < t"
    and x: "\<bar>x\<bar> * 2 ^ scale < 2 ^ (prec + t) - 2 ^ (t - 1)"
  shows "\<bar>round_binary prec scale x\<bar> * 2 ^ scale \<le> (2 ^ prec - 1) * 2 ^ t"
proof -
  let ?N = "\<lfloor>\<bar>x\<bar> * 2 ^ scale\<rfloor>"
  define s where "s = nat (max (bitlen ?N - int prec) 0)"
  define y where "y = x * 2 ^ scale / 2 ^ s"
  define m where "m = round_half_even y"
  have d: "round_binary prec scale x = of_int m * 2 ^ s / 2 ^ scale"
    unfolding round_binary_def Let_def s_def y_def m_def ..
  then have d': "\<bar>round_binary prec scale x\<bar> * 2 ^ scale = \<bar>of_int m\<bar> * 2 ^ s"
    by (simp add: abs_mult)
  have "(0::real) < 2 ^ (t - 1)" by simp
  with x have "\<bar>x\<bar> * 2 ^ scale < 2 ^ (prec + t)" by linarith
  then have "?N < 2 ^ (prec + t)" by (simp only: floor_less_iff of_int_power of_int_numeral)
  then have "bitlen ?N \<le> int (prec + t)"
    unfolding bitlen_le_iff_power nat_int by (simp only: of_nat_0_le_iff simp_thms)
  then have s: "s \<le> t" unfolding s_def by simp
  have "bitlen ?N \<le> int (prec + s)" unfolding s_def by simp
  then have "0 \<le> int (prec + s) \<and> ?N < 2 ^ (prec + s)"
    unfolding bitlen_le_iff_power nat_int .
  then have "?N < 2 ^ (prec + s)" ..
  then have "\<bar>x\<bar> * 2 ^ scale < 2 ^ (prec + s)"
    by (simp only: floor_less_iff of_int_power of_int_numeral)
  then have ylt: "\<bar>y\<bar> < 2 ^ prec"
    unfolding y_def by (simp add: abs_mult power_add field_simps)
  have mle: "\<bar>m\<bar> \<le> 2 ^ prec"
  proof -
    from ylt have "y < of_int (2 ^ prec)" "of_int (- (2 ^ prec)) < y" by (simp_all add: abs_less_iff)
    then have "\<lceil>y\<rceil> \<le> 2 ^ prec" "- (2 ^ prec) \<le> \<lfloor>y\<rfloor>"
      by (simp_all only: ceiling_le_iff le_floor_iff less_imp_le)
    with round_half_even_le_ceiling[of y] round_half_even_ge_floor[of y]
    show ?thesis unfolding m_def by linarith
  qed
  show ?thesis
  proof (cases "s = t")
    case False
    with s have "s \<le> t - 1" by simp
    then have "(2::real) ^ s \<le> 2 ^ (t - 1)" by (rule power_increasing) simp
    moreover from mle have "\<bar>real_of_int m\<bar> \<le> 2 ^ prec"
      by (simp only: of_int_abs[symmetric] of_int_le_numeral_power_cancel_iff)
    ultimately have "\<bar>real_of_int m\<bar> * 2 ^ s \<le> 2 ^ prec * 2 ^ (t - 1)"
      by (intro mult_mono) simp_all
    also have "\<dots> \<le> (2 ^ prec - 1) * (2::real) ^ t"
    proof -
      from t have tt: "(2::real) ^ t = 2 * 2 ^ (t - 1)"
        by (cases t) simp_all
      from prec have "(2::real) ^ 1 \<le> 2 ^ prec" by (intro power_increasing) simp_all
      then have "(2::real) \<le> 2 ^ prec" by (simp only: power_one_right)
      then have "(2::real) ^ prec \<le> 2 * (2 ^ prec - 1)" by argo
      then have "(2::real) ^ prec * 2 ^ (t - 1) \<le> (2 * (2 ^ prec - 1)) * 2 ^ (t - 1)"
        by (rule mult_right_mono) simp
      then show ?thesis unfolding tt by (simp add: mult_ac)
    qed
    finally show ?thesis unfolding d' .
  next
    case True
    from t have tt: "(2::real) ^ t = 2 * 2 ^ (t - 1)"
      by (cases t) simp_all
    have "\<bar>y\<bar> * 2 ^ t = \<bar>x\<bar> * 2 ^ scale" unfolding y_def True by (simp add: abs_mult)
    with x have "\<bar>y\<bar> * 2 ^ t < 2 ^ (prec + t) - 2 ^ (t - 1)" by simp
    also have "\<dots> = (2 ^ prec - 1 / 2) * (2::real) ^ t"
      unfolding power_add tt by (simp add: algebra_simps)
    finally have "\<bar>y\<bar> < 2 ^ prec - 1 / 2"
      by (simp only: mult_less_cancel_right_pos zero_less_power zero_less_numeral)
    then have y1: "y < of_int (2 ^ prec) - 1 / 2" and y2: "- of_int (2 ^ prec) + 1 / 2 < y"
      by (simp_all add: abs_less_iff)
    have "m \<le> 2 ^ prec - 1" unfolding m_def using y1 by (rule round_half_even_le_pred)
    moreover have "- (2 ^ prec) + 1 \<le> m"
      unfolding m_def using y2 by (rule round_half_even_ge_succ)
    ultimately have "\<bar>m\<bar> \<le> 2 ^ prec - 1" by linarith
    then have "real_of_int \<bar>m\<bar> \<le> real_of_int (2 ^ prec - 1)" by (simp only: of_int_le_iff)
    then have "\<bar>real_of_int m\<bar> \<le> 2 ^ prec - 1" by simp
    then have "\<bar>real_of_int m\<bar> * 2 ^ t \<le> (2 ^ prec - 1) * 2 ^ t"
      by (rule mult_right_mono) simp
    then show ?thesis unfolding d' True .
  qed
qed


lemma round_half_even_half: "round_half_even (of_int f + 1 / 2) = (if even f then f else f + 1)"
proof -
  have "\<lfloor>real_of_int f + 1 / 2\<rfloor> = f" by (intro floor_unique) simp_all
  then show ?thesis by (simp add: round_half_even_def Let_def)
qed

lemma to_double_tieI:
  fixes k :: nat and f :: int
  assumes k: "k \<le> 1074"
    and lo: "2 ^ 52 \<le> \<bar>x\<bar> * 2 ^ k"
    and hi: "\<bar>x\<bar> * 2 ^ k < 2 ^ 53"
    and f: "x * 2 ^ k = of_int f + 1 / 2"
  shows "to_double x = of_int (if even f then f else f + 1) / 2 ^ k"
  unfolding to_double_binade[OF k lo hi] f round_half_even_half ..

lemma to_double_le_max:
  assumes "\<bar>x\<bar> < 2 ^ 1024 - 2 ^ 970"
  shows "\<bar>to_double x\<bar> \<le> max_double"
proof -
  have "\<bar>x\<bar> * 2 ^ 1074 < (2 ^ 1024 - 2 ^ 970) * 2 ^ 1074"
    using assms by (rule mult_strict_right_mono) simp
  also have "\<dots> = 2 ^ (53 + 2045) - (2::real) ^ (2045 - 1)" by simp
  finally have "\<bar>round_binary 53 1074 x\<bar> * 2 ^ 1074 \<le> (2 ^ 53 - 1) * 2 ^ 2045"
    by (intro round_binary_le_max) simp_all
  also have "\<dots> = max_double * (2::real) ^ 1074" by (simp add: max_double_def)
  finally show ?thesis unfolding to_double_def
    by (simp only: mult_le_cancel_right_pos zero_less_power zero_less_numeral)
qed

lemma finite_double_to_double:
  assumes "\<bar>x\<bar> < 2 ^ 1024 - 2 ^ 970"
  shows "finite_double (to_double x)"
  unfolding finite_double_def using to_double_idem[of x] to_double_le_max[OF assms] by (rule conjI)

lemma finite_double_in_range: "finite_double x \<Longrightarrow> \<bar>x\<bar> < 2 ^ 1024 - 2 ^ 970"
  by (simp add: finite_double_def max_double_def)

lemma to_float_finite: "finite_double x \<Longrightarrow> to_float x = Inr x"
  using finite_double_in_range[of x] by (simp add: to_float_def finite_double_def)

lemma to_float_Inr: "to_float x = Inr y \<Longrightarrow> finite_double y"
  by (auto simp: to_float_def finite_double_to_double split: if_splits)

lemma to_float_near:
  assumes "finite_double x" and "\<bar>c\<bar> \<le> 2 ^ 969"
  shows "to_float (c - x) = Inr (fsub c x)"
proof -
  have "\<bar>c - x\<bar> \<le> \<bar>c\<bar> + \<bar>x\<bar>" by (rule abs_triangle_ineq4)
  also have "\<dots> \<le> 2 ^ 969 + max_double" using assms by (simp add: finite_double_def)
  also have "\<dots> < 2 ^ 1024 - 2 ^ 970" by (simp add: max_double_def)
  finally show ?thesis by (simp add: to_float_def fsub_def)
qed

lemma finite_double_zero: "finite_double 0"
  by (simp add: finite_double_def to_double_zero max_double_def)

lemma double_literals:
  "to_double 0.2 = 3602879701896397 / 2 ^ 54"
  "to_double 0.1 = 3602879701896397 / 2 ^ 55"
  "to_double 0.3 = 5404319552844595 / 2 ^ 54"
  using to_double_eqI[of 55 "0.2" 7205759403792794]
    to_double_eqI[of 56 "0.1" 7205759403792794]
    to_double_eqI[of 54 "0.3" 5404319552844595]
  by simp_all

lemma to_double_small:
  "to_double 1 = 1" "to_double 2 = 2" "to_double 3 = 3" "to_double 4 = 4" "to_double 5 = 5"
  "to_double 6 = 6" "to_double 9 = 9" "to_double (11 / 2) = 11 / 2" "to_double (15 / 2) = 15 / 2"
  using to_double_eqI[of 52 1 "2 ^ 52"] to_double_eqI[of 51 2 "2 ^ 52"]
    to_double_eqI[of 51 3 "3 * 2 ^ 51"] to_double_eqI[of 50 4 "2 ^ 52"]
    to_double_eqI[of 50 5 "5 * 2 ^ 50"] to_double_eqI[of 50 6 "6 * 2 ^ 50"]
    to_double_eqI[of 49 9 "9 * 2 ^ 49"] to_double_eqI[of 50 "11 / 2" "11 * 2 ^ 49"]
    to_double_eqI[of 50 "15 / 2" "15 * 2 ^ 49"]
  by simp_all

lemma finite_double_small:
  "finite_double 0" "finite_double 1" "finite_double 2" "finite_double 3" "finite_double 4"
  "finite_double 5" "finite_double 6" "finite_double 9" "finite_double (11 / 2)"
  "finite_double (15 / 2)"
  by (simp_all add: finite_double_def to_double_zero to_double_small max_double_def)

lemma risk_formula_example:
  "risk_formula 5 5 4 1 1 1 = 6305039478318695 / 2 ^ 51"
proof -
  have t1: "fmul 5 (to_double 0.2) = 1"
    unfolding fmul_def double_literals
    using to_double_eqI[of 52 "5 * (3602879701896397 / 2 ^ 54)" 4503599627370496] by simp
  have s12: "fadd 1 1 = 2" by (simp add: fadd_def to_double_small)
  have t3: "fmul (fsub 5 4) (to_double 0.1) = 3602879701896397 / 2 ^ 55"
    using to_double_idem[of "0.1"] by (simp add: fmul_def fsub_def to_double_small double_literals)
  have s123: "fadd 2 (3602879701896397 / 2 ^ 55) = 4728779608739021 / 2 ^ 51"
    unfolding fadd_def
    using to_double_eqI[of 51 "2 + 3602879701896397 / 2 ^ 55" 4728779608739021] by simp
  have t4: "fmul (fsub 4 1) (to_double 0.1) = 5404319552844596 / 2 ^ 54"
    unfolding fmul_def fsub_def double_literals
    using to_double_tieI[of 54 "3 * (3602879701896397 / 2 ^ 55)" 5404319552844595]
    by (simp add: to_double_small)
  have s1234: "fadd (4728779608739021 / 2 ^ 51) (5404319552844596 / 2 ^ 54) =
                 5404319552844596 / 2 ^ 51"
    unfolding fadd_def
    using to_double_tieI[of 51 "4728779608739021 / 2 ^ 51 + 5404319552844596 / 2 ^ 54"
        5404319552844595]
    by simp
  have t5: "fmul 1 (to_double 0.3) = 5404319552844595 / 2 ^ 54"
    using to_double_idem[of "0.3"] by (simp add: fmul_def double_literals)
  have s5: "fadd (5404319552844596 / 2 ^ 51) (5404319552844595 / 2 ^ 54) =
              6079859496950170 / 2 ^ 51"
    unfolding fadd_def
    using to_double_eqI[of 51 "5404319552844596 / 2 ^ 51 + 5404319552844595 / 2 ^ 54"
        6079859496950170]
    by simp
  have t6: "fmul 1 (to_double 0.1) = 3602879701896397 / 2 ^ 55"
    using to_double_idem[of "0.1"] by (simp add: fmul_def double_literals)
  have s6: "fadd (6079859496950170 / 2 ^ 51) (3602879701896397 / 2 ^ 55) =
              6305039478318695 / 2 ^ 51"
    unfolding fadd_def
    using to_double_eqI[of 51 "6079859496950170 / 2 ^ 51 + 3602879701896397 / 2 ^ 55"
        6305039478318695]
    by simp
  show ?thesis
    unfolding risk_formula_def t1 s12 t3 s123 t4 s1234 t5 s5 t6 s6 ..
qed

lemma risk_formula_example_not_2_8:
  "(6305039478318695 / 2 ^ 51 :: real) \<noteq> 2.8"
  "to_double 2.8 = 6305039478318694 / 2 ^ 51"
  "\<bar>6305039478318695 / 2 ^ 51 - 2.8 :: real\<bar> < 1 / 2 ^ 50"
  using to_double_eqI[of 51 "2.8" 6305039478318694] by simp_all

lemma to_double_le_16:
  assumes "\<bar>x\<bar> \<le> 15"
  shows "\<bar>to_double x\<bar> \<le> 16"
proof -
  have "\<bar>x\<bar> * 2 ^ 1074 \<le> 15 * 2 ^ 1074" using assms by (rule mult_right_mono) simp
  also have "\<dots> < 2 ^ (53 + 1025) - (2::real) ^ (1025 - 1)" by simp
  finally have "\<bar>round_binary 53 1074 x\<bar> * 2 ^ 1074 \<le> (2 ^ 53 - 1) * 2 ^ 1025"
    by (intro round_binary_le_max) simp_all
  also have "\<dots> \<le> 16 * (2::real) ^ 1074" by simp
  finally show ?thesis unfolding to_double_def
    by (simp only: mult_le_cancel_right_pos zero_less_power zero_less_numeral)
qed

lemma fmul_small:
  assumes "\<bar>x\<bar> \<le> 16" and "\<bar>c\<bar> \<le> 1 / 2"
  shows "\<bar>fmul x c\<bar> \<le> 16"
proof -
  have "\<bar>x * c\<bar> = \<bar>x\<bar> * \<bar>c\<bar>" by (rule abs_mult)
  also have "\<dots> \<le> 16 * (1 / 2)" using assms by (intro mult_mono) simp_all
  finally have "\<bar>x * c\<bar> \<le> 15" by simp
  then show ?thesis unfolding fmul_def by (rule to_double_le_16)
qed

lemma fmul_pressure:
  assumes "\<bar>a\<bar> \<le> max_double"
  shows "\<bar>fmul a (to_double 0.2)\<bar> \<le> (2 ^ 53 - 1) * 2 ^ 969"
proof -
  let ?c = "3602879701896397 / 2 ^ 54 :: real"
  have "\<bar>a * ?c\<bar> = \<bar>a\<bar> * ?c" by (simp add: abs_mult)
  also have "\<dots> \<le> max_double * ?c" using assms by (intro mult_right_mono) simp_all
  finally have "\<bar>a * ?c\<bar> * 2 ^ 1074 \<le> max_double * ?c * 2 ^ 1074"
    by (intro mult_right_mono) simp_all
  also have "\<dots> < 2 ^ (53 + 2043) - (2::real) ^ (2043 - 1)" by (simp add: max_double_def)
  finally have "\<bar>round_binary 53 1074 (a * ?c)\<bar> * 2 ^ 1074 \<le> (2 ^ 53 - 1) * 2 ^ 2043"
    by (intro round_binary_le_max) simp_all
  also have "\<dots> = ((2 ^ 53 - 1) * 2 ^ 969) * (2::real) ^ 1074" by simp
  finally show ?thesis unfolding fmul_def double_literals unfolding to_double_def
    by (simp only: mult_le_cancel_right_pos zero_less_power zero_less_numeral)
qed

lemma fadd_pressures:
  assumes "\<bar>x\<bar> \<le> (2 ^ 53 - 1) * 2 ^ 969" and "\<bar>y\<bar> \<le> (2 ^ 53 - 1) * 2 ^ 969"
  shows "\<bar>fadd x y\<bar> \<le> (2 ^ 53 - 1) * 2 ^ 970"
proof -
  have "\<bar>x + y\<bar> \<le> \<bar>x\<bar> + \<bar>y\<bar>" by (rule abs_triangle_ineq)
  also have "\<dots> \<le> (2 ^ 53 - 1) * 2 ^ 969 + (2 ^ 53 - 1) * 2 ^ 969"
    using assms by (rule add_mono)
  finally have "\<bar>x + y\<bar> * 2 ^ 1074 \<le> ((2 ^ 53 - 1) * 2 ^ 969 + (2 ^ 53 - 1) * 2 ^ 969) * 2 ^ 1074"
    by (intro mult_right_mono) simp_all
  also have "\<dots> < 2 ^ (53 + 2044) - (2::real) ^ (2044 - 1)" by simp
  finally have "\<bar>round_binary 53 1074 (x + y)\<bar> * 2 ^ 1074 \<le> (2 ^ 53 - 1) * 2 ^ 2044"
    by (intro round_binary_le_max) simp_all
  also have "\<dots> = ((2 ^ 53 - 1) * 2 ^ 970) * (2::real) ^ 1074" by simp
  finally show ?thesis unfolding fadd_def to_double_def
    by (simp only: mult_le_cancel_right_pos zero_less_power zero_less_numeral)
qed

lemma fadd_term:
  assumes "\<bar>x\<bar> \<le> max_double" and "\<bar>y\<bar> \<le> 16"
  shows "\<bar>fadd x y\<bar> \<le> max_double"
proof -
  have "\<bar>x + y\<bar> \<le> \<bar>x\<bar> + \<bar>y\<bar>" by (rule abs_triangle_ineq)
  also have "\<dots> \<le> max_double + 16" using assms by (rule add_mono)
  also have "\<dots> < 2 ^ 1024 - 2 ^ 970" by (simp add: max_double_def)
  finally show ?thesis unfolding fadd_def by (rule to_double_le_max)
qed

lemma finite_double_roundedI: "\<bar>to_double z\<bar> \<le> max_double \<Longrightarrow> finite_double (to_double z)"
  unfolding finite_double_def using to_double_idem[of z] by (rule conjI)

lemma finite_double_ops:
  "\<bar>fmul x y\<bar> \<le> max_double \<Longrightarrow> finite_double (fmul x y)"
  "\<bar>fadd x y\<bar> \<le> max_double \<Longrightarrow> finite_double (fadd x y)"
  "\<bar>fsub x y\<bar> \<le> max_double \<Longrightarrow> finite_double (fsub x y)"
  unfolding fmul_def fadd_def fsub_def by (erule finite_double_roundedI)+

lemma small_le_max_double: "\<bar>x\<bar> \<le> 16 \<Longrightarrow> \<bar>x\<bar> \<le> max_double"
  by (simp add: max_double_def)

lemma risk_formula_last:
  "last (risk_formula_steps ap fs sh ds st fh) = risk_formula ap fs sh ds st fh"
  by (simp add: risk_formula_steps_def risk_formula_def Let_def)

lemma risk_formula_steps_finite:
  assumes ap: "finite_double ap" and fs: "finite_double fs"
    and sh: "\<bar>sh\<bar> \<le> 9" and ds: "\<bar>ds\<bar> \<le> 9" and st: "\<bar>st\<bar> \<le> 9" and fh: "\<bar>fh\<bar> \<le> 9"
  shows "list_all finite_double (risk_formula_steps ap fs sh ds st fh)"
proof -
  let ?t1 = "fmul ap (to_double 0.2)" and ?t2 = "fmul fs (to_double 0.2)"
  let ?d3 = "fsub 5 sh" and ?d4 = "fsub 4 ds"
  let ?t3 = "fmul ?d3 (to_double 0.1)" and ?t4 = "fmul ?d4 (to_double 0.1)"
  let ?t5 = "fmul st (to_double 0.3)" and ?t6 = "fmul fh (to_double 0.1)"
  let ?s2 = "fadd ?t1 ?t2"
  let ?s3 = "fadd ?s2 ?t3"
  let ?s4 = "fadd ?s3 ?t4"
  let ?s5 = "fadd ?s4 ?t5"
  let ?s6 = "fadd ?s5 ?t6"
  have c: "\<bar>to_double 0.1\<bar> \<le> 1 / 2" "\<bar>to_double 0.3\<bar> \<le> 1 / 2"
    by (simp_all add: double_literals)
  from ap have b1: "\<bar>?t1\<bar> \<le> (2 ^ 53 - 1) * 2 ^ 969"
    unfolding finite_double_def by (intro fmul_pressure) simp
  from fs have b2: "\<bar>?t2\<bar> \<le> (2 ^ 53 - 1) * 2 ^ 969"
    unfolding finite_double_def by (intro fmul_pressure) simp
  from b1 b2 have "\<bar>?s2\<bar> \<le> (2 ^ 53 - 1) * 2 ^ 970" by (rule fadd_pressures)
  then have s2: "\<bar>?s2\<bar> \<le> max_double" by (simp add: max_double_def)
  from b1 have t1: "\<bar>?t1\<bar> \<le> max_double" by (simp add: max_double_def)
  from b2 have t2: "\<bar>?t2\<bar> \<le> max_double" by (simp add: max_double_def)
  have "\<bar>5 - sh\<bar> \<le> 15" using sh by linarith
  then have d3: "\<bar>?d3\<bar> \<le> 16" unfolding fsub_def by (rule to_double_le_16)
  then have t3: "\<bar>?t3\<bar> \<le> 16" using c(1) by (rule fmul_small)
  have "\<bar>4 - ds\<bar> \<le> 15" using ds by linarith
  then have d4: "\<bar>?d4\<bar> \<le> 16" unfolding fsub_def by (rule to_double_le_16)
  then have t4: "\<bar>?t4\<bar> \<le> 16" using c(1) by (rule fmul_small)
  from st have "\<bar>st\<bar> \<le> 16" by simp
  then have t5: "\<bar>?t5\<bar> \<le> 16" using c(2) by (rule fmul_small)
  from fh have "\<bar>fh\<bar> \<le> 16" by simp
  then have t6: "\<bar>?t6\<bar> \<le> 16" using c(1) by (rule fmul_small)
  from s2 t3 have s3: "\<bar>?s3\<bar> \<le> max_double" by (rule fadd_term)
  from s3 t4 have s4: "\<bar>?s4\<bar> \<le> max_double" by (rule fadd_term)
  from s4 t5 have s5: "\<bar>?s5\<bar> \<le> max_double" by (rule fadd_term)
  from s5 t6 have s6: "\<bar>?s6\<bar> \<le> max_double" by (rule fadd_term)
  note m = small_le_max_double
  have f: "finite_double ?t1" "finite_double ?t2" "finite_double ?s2"
    "finite_double ?d3" "finite_double ?t3" "finite_double ?s3"
    "finite_double ?d4" "finite_double ?t4" "finite_double ?s4"
    "finite_double ?t5" "finite_double ?s5" "finite_double ?t6" "finite_double ?s6"
    by (rule finite_double_ops t1 t2 s2 d3[THEN m] t3[THEN m] s3 d4[THEN m] t4[THEN m] s4
          t5[THEN m] s5 t6[THEN m] s6)+
  show ?thesis
    unfolding risk_formula_steps_def Let_def by (simp only: list.pred_inject f simp_thms)
qed

section \<open>The preprocessor: lemmas\<close>

lemma numerical_loop_step:
  "numerical_loop stf data (f # fs) processed = Inr p \<Longrightarrow>
     numerical_loop stf data fs (stored stf data f processed) = Inr p"
  by (auto simp: stored_def coerced_def dict_index_def split: option.splits sum.splits)

lemma numerical_loop_Inr:
  "numerical_loop stf data fs processed = Inr p \<Longrightarrow> p = fold (stored stf data) fs processed"
proof (induction fs arbitrary: processed)
  case Nil
  then show ?case by simp
next
  case (Cons f fs)
  from Cons.IH[OF numerical_loop_step[OF Cons.prems]]
  have "p = fold (stored stf data) fs (stored stf data f processed)" .
  also have "\<dots> = fold (stored stf data) (f # fs) processed" by simp
  finally show ?case .
qed

lemma numerical_loop_step_ok:
  assumes "map_of feature_mapping f \<noteq> None"
    and "case data f of None \<Rightarrow> True | Some v \<Rightarrow> \<not> isl (py_float stf v)"
  shows "numerical_loop stf data (f # fs) processed =
           numerical_loop stf data fs (stored stf data f processed)"
  using assms by (auto simp: stored_def coerced_def dict_index_def split: option.splits sum.splits)

lemma numerical_loop_ok:
  assumes "\<forall>f\<in>set fs. map_of feature_mapping f \<noteq> None \<and>
             (case data f of None \<Rightarrow> True | Some v \<Rightarrow> \<not> isl (py_float stf v))"
  shows "numerical_loop stf data fs processed = Inr (fold (stored stf data) fs processed)"
  using assms
proof (induction fs arbitrary: processed)
  case Nil
  then show ?case by simp
next
  case (Cons f fs)
  from Cons.prems have hd: "map_of feature_mapping f \<noteq> None"
    "case data f of None \<Rightarrow> True | Some v \<Rightarrow> \<not> isl (py_float stf v)" by simp_all
  from Cons.prems have rest: "\<forall>f\<in>set fs. map_of feature_mapping f \<noteq> None \<and>
             (case data f of None \<Rightarrow> True | Some v \<Rightarrow> \<not> isl (py_float stf v))" by simp
  have "numerical_loop stf data (f # fs) processed =
          numerical_loop stf data fs (stored stf data f processed)"
    using hd by (rule numerical_loop_step_ok)
  also have "\<dots> = Inr (fold (stored stf data) fs (stored stf data f processed))"
    by (rule Cons.IH[OF rest])
  also have "fold (stored stf data) fs (stored stf data f processed) =
               fold (stored stf data) (f # fs) processed" by simp
  finally show ?case .
qed

lemma numerical_loop_fails:
  assumes "f \<in> set fs" and "data f = Some v" and "py_float stf v = Inl e"
  shows "\<exists>e'. numerical_loop stf data fs processed = Inl e'"
  using assms(1)
proof (induction fs arbitrary: processed)
  case Nil
  then show ?case by simp
next
  case (Cons g gs)
  show ?case
  proof (cases "numerical_loop stf data (g # gs) processed")
    case (Inl a)
    then show ?thesis by blast
  next
    case (Inr p)
    have "g \<noteq> f"
    proof
      assume "g = f"
      with Inr assms(2,3) show False by simp
    qed
    with Cons.prems have "f \<in> set gs" by simp
    from Cons.IH[OF this, of "stored stf data g processed"] numerical_loop_step[OF Inr]
    have False by simp
    then show ?thesis ..
  qed
qed

lemma feature_mapping_total: "\<forall>f\<in>set numerical_features. map_of feature_mapping f \<noteq> None"
  by (simp add: numerical_features_def feature_mapping_def)

lemma numerical_loop_coercible:
  assumes "coercible stf data"
  shows "numerical_loop stf data numerical_features Map.empty =
           Inr (fold (stored stf data) numerical_features Map.empty)"
proof (rule numerical_loop_ok)
  show "\<forall>f\<in>set numerical_features. map_of feature_mapping f \<noteq> None \<and>
          (case data f of None \<Rightarrow> True | Some v \<Rightarrow> \<not> isl (py_float stf v))"
    using assms feature_mapping_total by (simp add: coercible_def)
qed

lemma preprocess_Inr:
  assumes "preprocess stf data = Inr p"
  shows "p = add_risk_score (mapped stf data)"
proof (cases "numerical_loop stf data numerical_features Map.empty")
  case (Inl e)
  with assms show ?thesis by (simp add: preprocess_def bindE_def)
next
  case (Inr p0)
  from numerical_loop_Inr[OF Inr] have p0: "p0 = fold (stored stf data) numerical_features Map.empty" .
  from assms Inr have "p = add_risk_score (encode_categoricals data p0)"
    by (simp add: preprocess_def bindE_def)
  then show ?thesis unfolding p0 mapped_def .
qed

lemma preprocess_coercible:
  assumes "coercible stf data"
  shows "preprocess stf data = Inr (add_risk_score (mapped stf data))"
  unfolding preprocess_def numerical_loop_coercible[OF assms] mapped_def
  by (simp add: bindE_def)

lemma preprocess_not_coercible:
  assumes "\<not> coercible stf data"
  shows "\<exists>e. preprocess stf data = Inl e"
proof -
  from assms obtain f v where f: "f \<in> set numerical_features" and v: "data f = Some v"
    and nv: "isl (py_float stf v)"
    by (auto simp: coercible_def split: option.splits)
  from nv obtain e where "py_float stf v = Inl e" by (cases "py_float stf v") auto
  from numerical_loop_fails[where data=data and stf=stf, OF f v this] obtain e' where
    "numerical_loop stf data numerical_features Map.empty = Inl e'" by blast
  then show ?thesis by (simp add: preprocess_def bindE_def)
qed

lemma stored_apply:
  "stored stf data f pr k =
     (if k = the (map_of feature_mapping f) then Some (Num (coerced stf data f)) else pr k)"
  by (simp add: stored_def)

lemma fold_numerical_features:
  "fold (stored stf data) numerical_features Map.empty k =
     (if k = ''Financial Stress'' then Some (Num (coerced stf data ''financial_stress''))
      else if k = ''Work/Study Hours'' then Some (Num (coerced stf data ''work_study_hours''))
      else if k = ''Job Satisfaction'' then Some (Num (coerced stf data ''job_satisfaction''))
      else if k = ''Study Satisfaction'' then Some (Num (coerced stf data ''study_satisfaction''))
      else if k = ''CGPA'' then Some (Num (coerced stf data ''cgpa''))
      else if k = ''Work Pressure'' then Some (Num (coerced stf data ''work_pressure''))
      else if k = ''Academic Pressure'' then Some (Num (coerced stf data ''academic_pressure''))
      else if k = ''Age'' then Some (Num (coerced stf data ''age''))
      else None)"
  by (simp add: numerical_features_def stored_apply feature_mapping_def)

lemma encode_categoricals_apply:
  "encode_categoricals data pr k =
     (if k = ''Family History of Mental Illness_encoded'' then
        Some (table_get family_encoder (dict_get data ''family_history'' (Str ''No'')) (Num 0))
      else if k = ''Have you ever had suicidal thoughts ?_encoded'' then
        Some (table_get suicidal_encoder (dict_get data ''suicidal_thoughts'' (Str ''No'')) (Num 0))
      else if k = ''Profession_encoded'' then
        Some (table_get profession_encoder (dict_get data ''profession'' (Str ''Student'')) (Num 0))
      else if k = ''Gender_encoded'' then
        Some (table_get gender_encoder (dict_get data ''gender'' (Str ''Male'')) (Num 0))
      else if k = ''Diet_Score'' then
        Some (table_get diet_mapping (dict_get data ''dietary_habits'' (Str ''Moderate'')) (Num 2))
      else if k = ''Sleep_Hours'' then
        Some (table_get sleep_mapping (dict_get data ''sleep_duration'' (Str ''7-8 hours'')) (Num 7.5))
      else pr k)"
  by (simp add: encode_categoricals_def Let_def)

lemmas mapped_apply = mapped_def encode_categoricals_apply fold_numerical_features

lemma mapped_numeric:
  "mapped stf data ''Age'' = Some (Num (coerced stf data ''age''))"
  "mapped stf data ''Academic Pressure'' = Some (Num (coerced stf data ''academic_pressure''))"
  "mapped stf data ''Work Pressure'' = Some (Num (coerced stf data ''work_pressure''))"
  "mapped stf data ''CGPA'' = Some (Num (coerced stf data ''cgpa''))"
  "mapped stf data ''Study Satisfaction'' = Some (Num (coerced stf data ''study_satisfaction''))"
  "mapped stf data ''Job Satisfaction'' = Some (Num (coerced stf data ''job_satisfaction''))"
  "mapped stf data ''Work/Study Hours'' = Some (Num (coerced stf data ''work_study_hours''))"
  "mapped stf data ''Financial Stress'' = Some (Num (coerced stf data ''financial_stress''))"
  by (simp_all add: mapped_apply)

lemma mapped_categorical:
  "mapped stf data ''Sleep_Hours'' =
     Some (table_get sleep_mapping (dict_get data ''sleep_duration'' (Str ''7-8 hours'')) (Num 7.5))"
  "mapped stf data ''Diet_Score'' =
     Some (table_get diet_mapping (dict_get data ''dietary_habits'' (Str ''Moderate'')) (Num 2))"
  "mapped stf data ''Gender_encoded'' =
     Some (table_get gender_encoder (dict_get data ''gender'' (Str ''Male'')) (Num 0))"
  "mapped stf data ''Profession_encoded'' =
     Some (table_get profession_encoder (dict_get data ''profession'' (Str ''Student'')) (Num 0))"
  "mapped stf data ''Have you ever had suicidal thoughts ?_encoded'' =
     Some (table_get suicidal_encoder (dict_get data ''suicidal_thoughts'' (Str ''No'')) (Num 0))"
  "mapped stf data ''Family History of Mental Illness_encoded'' =
     Some (table_get family_encoder (dict_get data ''family_history'' (Str ''No'')) (Num 0))"
  by (simp_all add: mapped_apply)

lemma mapped_no_risk_score: "mapped stf data ''Risk_Score'' = None"
  by (simp add: mapped_apply)

lemma table_get_is_Num:
  assumes "\<forall>v \<in> snd ` set t. is_Num v" and "is_Num d"
  shows "is_Num (table_get t k d)"
proof (cases k)
  case (Str s)
  show ?thesis
  proof (cases "map_of t s")
    case None
    with Str assms(2) show ?thesis by (simp add: table_get_def)
  next
    case (Some v)
    then have "(s, v) \<in> set t" by (rule map_of_SomeD)
    then have "v \<in> snd ` set t" by force
    with assms(1) have "is_Num v" by blast
    with Str Some show ?thesis by (simp add: table_get_def)
  qed
qed (simp_all add: table_get_def assms(2))

lemma tables_is_Num:
  "is_Num (table_get sleep_mapping k (Num d))"
  "is_Num (table_get diet_mapping k (Num d))"
  "is_Num (table_get gender_encoder k (Num d))"
  "is_Num (table_get profession_encoder k (Num d))"
  "is_Num (table_get suicidal_encoder k (Num d))"
  "is_Num (table_get family_encoder k (Num d))"
  by (rule table_get_is_Num; simp add: sleep_mapping_def diet_mapping_def gender_encoder_def
        profession_encoder_def suicidal_encoder_def family_encoder_def)+

section \<open>The risk score\<close>

lemma py_mul_finite: "finite_double x \<Longrightarrow> py_mul (Num x) c = Inr (fmul x c)"
  by (simp add: py_mul_def bindE_def to_float_finite)

lemma py_rsub_mul_finite:
  "finite_double x \<Longrightarrow> \<bar>c\<bar> \<le> 2 ^ 969 \<Longrightarrow> py_rsub_mul c (Num x) k = Inr (fmul (fsub c x) k)"
  by (simp add: py_rsub_mul_def bindE_def to_float_near)

lemma risk_score_sum_finite:
  assumes "pd ''Academic Pressure'' = Some (Num ap)"
    and "pd ''Financial Stress'' = Some (Num fs)"
    and "pd ''Sleep_Hours'' = Some (Num sh)"
    and "pd ''Diet_Score'' = Some (Num ds)"
    and "pd ''Have you ever had suicidal thoughts ?_encoded'' = Some (Num st)"
    and "pd ''Family History of Mental Illness_encoded'' = Some (Num fh)"
    and "finite_double ap" and "finite_double fs" and "finite_double sh"
    and "finite_double ds" and "finite_double st" and "finite_double fh"
  shows "risk_score_sum pd = Inr (risk_formula ap fs sh ds st fh)"
proof -
  have c: "\<bar>5::real\<bar> \<le> 2 ^ 969" "\<bar>4::real\<bar> \<le> 2 ^ 969" by simp_all
  show ?thesis
    unfolding risk_score_sum_def risk_formula_def dict_get_def assms(1-6) option.case
      py_mul_finite[OF assms(7)] py_mul_finite[OF assms(8)]
      py_rsub_mul_finite[OF assms(9) c(1)] py_rsub_mul_finite[OF assms(10) c(2)]
      py_mul_finite[OF assms(11)] py_mul_finite[OF assms(12)]
    by (simp add: bindE_def)
qed

lemma mapped_Num:
  "mapped stf data ''Sleep_Hours'' = Some (Num (the_num (the (mapped stf data ''Sleep_Hours''))))"
  "mapped stf data ''Diet_Score'' = Some (Num (the_num (the (mapped stf data ''Diet_Score''))))"
  "mapped stf data ''Have you ever had suicidal thoughts ?_encoded'' =
     Some (Num (the_num (the (mapped stf data ''Have you ever had suicidal thoughts ?_encoded''))))"
  "mapped stf data ''Family History of Mental Illness_encoded'' =
     Some (Num (the_num (the (mapped stf data ''Family History of Mental Illness_encoded''))))"
  unfolding mapped_categorical option.sel by (simp_all only: pyval.collapse tables_is_Num)

lemma table_get_pred:
  assumes "\<forall>v \<in> snd ` set t. P v" and "P d"
  shows "P (table_get t k d)"
proof (cases k)
  case (Str s)
  show ?thesis
  proof (cases "map_of t s")
    case None
    with Str assms(2) show ?thesis by (simp add: table_get_def)
  next
    case (Some v)
    then have "(s, v) \<in> set t" by (rule map_of_SomeD)
    then have "v \<in> snd ` set t" by force
    with assms(1) have "P v" by blast
    with Str Some show ?thesis by (simp add: table_get_def)
  qed
qed (simp_all add: table_get_def assms(2))

text \<open>The entries of the tables read by the risk score are small floats.\<close>

lemma tables_small:
  "finite_double (the_num (table_get sleep_mapping k (Num 7.5))) \<and>
     \<bar>the_num (table_get sleep_mapping k (Num 7.5))\<bar> \<le> 9"
  "finite_double (the_num (table_get diet_mapping k (Num 2))) \<and>
     \<bar>the_num (table_get diet_mapping k (Num 2))\<bar> \<le> 9"
  "finite_double (the_num (table_get suicidal_encoder k (Num 0))) \<and>
     \<bar>the_num (table_get suicidal_encoder k (Num 0))\<bar> \<le> 9"
  "finite_double (the_num (table_get family_encoder k (Num 0))) \<and>
     \<bar>the_num (table_get family_encoder k (Num 0))\<bar> \<le> 9"
  by (rule table_get_pred[where P="\<lambda>v. finite_double (the_num v) \<and> \<bar>the_num v\<bar> \<le> 9"];
      simp add: sleep_mapping_def diet_mapping_def suicidal_encoder_def family_encoder_def
        finite_double_small)+

lemma mapped_small:
  "finite_double (the_num (the (mapped stf data ''Sleep_Hours''))) \<and>
     \<bar>the_num (the (mapped stf data ''Sleep_Hours''))\<bar> \<le> 9"
  "finite_double (the_num (the (mapped stf data ''Diet_Score''))) \<and>
     \<bar>the_num (the (mapped stf data ''Diet_Score''))\<bar> \<le> 9"
  "finite_double (the_num (the (mapped stf data ''Have you ever had suicidal thoughts ?_encoded''))) \<and>
     \<bar>the_num (the (mapped stf data ''Have you ever had suicidal thoughts ?_encoded''))\<bar> \<le> 9"
  "finite_double (the_num (the (mapped stf data ''Family History of Mental Illness_encoded''))) \<and>
     \<bar>the_num (the (mapped stf data ''Family History of Mental Illness_encoded''))\<bar> \<le> 9"
  unfolding mapped_categorical option.sel by (rule tables_small)+

text \<open>What \<^verbatim>\<open>float\<close> returns is a finite float.\<close>

lemma py_float_finite:
  assumes "float_parser stf" and "py_float stf v = Inr x"
  shows "finite_double x"
proof (cases v)
  case (Num r)
  with assms(2) have "to_float r = Inr x" by (simp add: py_float_def)
  then show ?thesis by (rule to_float_Inr)
next
  case (Str s)
  with assms(2) have "stf s = Some x" by (simp add: py_float_def split: option.splits)
  with assms(1) show ?thesis unfolding float_parser_def by blast
next
  case NoneVal
  with assms(2) show ?thesis by (simp add: py_float_def)
qed

lemma coerced_finite:
  assumes "float_parser stf" and "coercible stf data" and "f \<in> set numerical_features"
  shows "finite_double (coerced stf data f)"
proof (cases "data f")
  case None
  then show ?thesis by (simp add: coerced_def finite_double_small)
next
  case (Some v)
  from assms(2,3) have "case data f of None \<Rightarrow> True | Some v \<Rightarrow> \<not> isl (py_float stf v)"
    unfolding coercible_def by blast
  with Some have "\<not> isl (py_float stf v)" by simp
  then obtain x where x: "py_float stf v = Inr x" by (cases "py_float stf v") auto
  from py_float_finite[OF assms(1) x] Some x show ?thesis by (simp add: coerced_def)
qed

lemma preprocess_Inr_coercible: "preprocess stf data = Inr p \<Longrightarrow> coercible stf data"
  using preprocess_not_coercible[of stf data] by (cases "coercible stf data") auto

lemma risk_score_mapped:
  assumes "float_parser stf" and "coercible stf data"
  shows "risk_score_sum (mapped stf data) =
     Inr (risk_formula (coerced stf data ''academic_pressure'') (coerced stf data ''financial_stress'')
            (the_num (the (mapped stf data ''Sleep_Hours'')))
            (the_num (the (mapped stf data ''Diet_Score'')))
            (the_num (the (mapped stf data ''Have you ever had suicidal thoughts ?_encoded'')))
            (the_num (the (mapped stf data ''Family History of Mental Illness_encoded''))))"
proof -
  have n: "''academic_pressure'' \<in> set numerical_features"
    "''financial_stress'' \<in> set numerical_features"
    by (simp_all add: numerical_features_def)
  show ?thesis
    by (rule risk_score_sum_finite[OF mapped_numeric(2) mapped_numeric(8) mapped_Num
          coerced_finite[OF assms n(1)] coerced_finite[OF assms n(2)]
          mapped_small(1)[THEN conjunct1] mapped_small(2)[THEN conjunct1]
          mapped_small(3)[THEN conjunct1] mapped_small(4)[THEN conjunct1]])
qed

lemma add_risk_score_apply:
  "add_risk_score pr k =
     (if k = ''Risk_Score'' then Some (Num (calculate_risk_score pr)) else pr k)"
  by (simp add: add_risk_score_def Let_def)

lemma stressed_student_coercible: "coercible no_float stressed_student"
  by (simp add: coercible_def numerical_features_def stressed_student_def py_float_def
        to_float_def)

lemma float_parser_no_float: "float_parser no_float"
  by (simp add: float_parser_def no_float_def)

text \<open>What \<^verbatim>\<open>preprocess\<close> stores for the answers \<open>stressed_student\<close>.\<close>

lemma stressed_student_stored:
  "add_risk_score (mapped no_float stressed_student) ''Academic Pressure'' = Some (Num 5)"
  "add_risk_score (mapped no_float stressed_student) ''Financial Stress'' = Some (Num 5)"
  "add_risk_score (mapped no_float stressed_student) ''Sleep_Hours'' = Some (Num 4)"
  "add_risk_score (mapped no_float stressed_student) ''Diet_Score'' = Some (Num 1)"
  "add_risk_score (mapped no_float stressed_student)
     ''Have you ever had suicidal thoughts ?_encoded'' = Some (Num 1)"
  "add_risk_score (mapped no_float stressed_student)
     ''Family History of Mental Illness_encoded'' = Some (Num 1)"
proof -
  have "coerced no_float stressed_student ''academic_pressure'' = 5"
    "coerced no_float stressed_student ''financial_stress'' = 5"
    by (simp_all add: coerced_def stressed_student_def py_float_def to_float_def to_double_small)
  then show "add_risk_score (mapped no_float stressed_student) ''Academic Pressure'' = Some (Num 5)"
    "add_risk_score (mapped no_float stressed_student) ''Financial Stress'' = Some (Num 5)"
    by (simp_all add: add_risk_score_apply mapped_numeric)
  show "add_risk_score (mapped no_float stressed_student) ''Sleep_Hours'' = Some (Num 4)"
    "add_risk_score (mapped no_float stressed_student) ''Diet_Score'' = Some (Num 1)"
    "add_risk_score (mapped no_float stressed_student)
       ''Have you ever had suicidal thoughts ?_encoded'' = Some (Num 1)"
    "add_risk_score (mapped no_float stressed_student)
       ''Family History of Mental Illness_encoded'' = Some (Num 1)"
    by (simp_all add: add_risk_score_apply mapped_categorical dict_get_def stressed_student_def
          table_get_def sleep_mapping_def diet_mapping_def suicidal_encoder_def family_encoder_def)
qed

lemma stressed_student_risk_score:
  "add_risk_score (mapped no_float stressed_student) ''Risk_Score'' =
     Some (Num (6305039478318695 / 2 ^ 51))"
proof -
  let ?m = "mapped no_float stressed_student"
  have k: "?m ''Academic Pressure'' = Some (Num 5)" "?m ''Financial Stress'' = Some (Num 5)"
    "?m ''Sleep_Hours'' = Some (Num 4)" "?m ''Diet_Score'' = Some (Num 1)"
    "?m ''Have you ever had suicidal thoughts ?_encoded'' = Some (Num 1)"
    "?m ''Family History of Mental Illness_encoded'' = Some (Num 1)"
    using stressed_student_stored by (simp_all add: add_risk_score_apply)
  have "risk_score_sum ?m = Inr (risk_formula 5 5 4 1 1 1)"
    by (rule risk_score_sum_finite[OF k finite_double_small(6) finite_double_small(6)
          finite_double_small(5) finite_double_small(2) finite_double_small(2)
          finite_double_small(2)])
  then have "calculate_risk_score ?m = 6305039478318695 / 2 ^ 51"
    unfolding calculate_risk_score_def risk_formula_example by simp
  then show ?thesis by (simp only: add_risk_score_apply simp_thms if_True)
qed

lemma float_parser_five_parser: "float_parser five_parser"
  by (auto simp: float_parser_def five_parser_def finite_double_small split: if_splits)

lemma stressed_student_text_coercible: "coercible five_parser stressed_student_text"
  by (simp add: coercible_def numerical_features_def stressed_student_text_def
        stressed_student_def py_float_def to_float_def five_parser_def)

text \<open>What \<^verbatim>\<open>preprocess\<close> stores for the answers \<open>stressed_student_text\<close>.\<close>

lemma stressed_student_text_stored:
  "add_risk_score (mapped five_parser stressed_student_text) ''Academic Pressure'' = Some (Num 5)"
  "add_risk_score (mapped five_parser stressed_student_text) ''Financial Stress'' = Some (Num 5)"
  "add_risk_score (mapped five_parser stressed_student_text) ''Sleep_Hours'' = Some (Num 4)"
  "add_risk_score (mapped five_parser stressed_student_text) ''Diet_Score'' = Some (Num 1)"
  "add_risk_score (mapped five_parser stressed_student_text)
     ''Have you ever had suicidal thoughts ?_encoded'' = Some (Num 1)"
  "add_risk_score (mapped five_parser stressed_student_text)
     ''Family History of Mental Illness_encoded'' = Some (Num 1)"
proof -
  have "coerced five_parser stressed_student_text ''academic_pressure'' = 5"
    "coerced five_parser stressed_student_text ''financial_stress'' = 5"
    by (simp_all add: coerced_def stressed_student_text_def stressed_student_def py_float_def
          to_float_def to_double_small five_parser_def)
  then show
    "add_risk_score (mapped five_parser stressed_student_text) ''Academic Pressure'' = Some (Num 5)"
    "add_risk_score (mapped five_parser stressed_student_text) ''Financial Stress'' = Some (Num 5)"
    by (simp_all add: add_risk_score_apply mapped_numeric)
  show "add_risk_score (mapped five_parser stressed_student_text) ''Sleep_Hours'' = Some (Num 4)"
    "add_risk_score (mapped five_parser stressed_student_text) ''Diet_Score'' = Some (Num 1)"
    "add_risk_score (mapped five_parser stressed_student_text)
       ''Have you ever had suicidal thoughts ?_encoded'' = Some (Num 1)"
    "add_risk_score (mapped five_parser stressed_student_text)
       ''Family History of Mental Illness_encoded'' = Some (Num 1)"
    by (simp_all add: add_risk_score_apply mapped_categorical dict_get_def
          stressed_student_text_def stressed_student_def table_get_def sleep_mapping_def
          diet_mapping_def suicidal_encoder_def family_encoder_def)
qed

text \<open>
  Claim C1. Whenever \<^verbatim>\<open>preprocess\<close> returns, \<^verbatim>\<open>float\<close> being a parser of finite
  floats, the values it stored under the six keys read by \<^verbatim>\<open>_calculate_risk_score\<close>
  are finite floats, and the stored \<^verbatim>\<open>Risk_Score\<close> is the formula
  \<open>0.2 * academic pressure + 0.2 * financial stress + 0.1 * (5 - sleep hours) +
  0.1 * (4 - diet score) + 0.3 * suicidal encoding + 0.1 * family encoding\<close> of them as
  Python evaluates it in double arithmetic (\<open>risk_formula\<close>); every product and
  partial sum of the evaluation is a finite float, so that none is \<^verbatim>\<open>inf\<close>. For the
  values 5, 5, 4, 1, 1, 1 the score is the double \<open>6305039478318695 / 2 ^ 51\<close>, which
  Python prints as \<^verbatim>\<open>2.8000000000000003\<close>.
\<close>

theorem risk_score_double_formula:
  assumes "preprocess stf data = Inr p" and "float_parser stf"
  shows "\<exists>ap fs sh ds st fh.
           p ''Academic Pressure'' = Some (Num ap) \<and>
           p ''Financial Stress'' = Some (Num fs) \<and>
           p ''Sleep_Hours'' = Some (Num sh) \<and>
           p ''Diet_Score'' = Some (Num ds) \<and>
           p ''Have you ever had suicidal thoughts ?_encoded'' = Some (Num st) \<and>
           p ''Family History of Mental Illness_encoded'' = Some (Num fh) \<and>
           list_all finite_double [ap, fs, sh, ds, st, fh] \<and>
           p ''Risk_Score'' = Some (Num (risk_formula ap fs sh ds st fh)) \<and>
           list_all finite_double (risk_formula_steps ap fs sh ds st fh) \<and>
           (ap = 5 \<and> fs = 5 \<and> sh = 4 \<and> ds = 1 \<and> st = 1 \<and> fh = 1 \<longrightarrow>
              p ''Risk_Score'' = Some (Num (6305039478318695 / 2 ^ 51)))"
proof -
  let ?m = "mapped stf data"
  from preprocess_Inr[OF assms(1)] have p: "p = add_risk_score ?m" .
  from assms(1) have co: "coercible stf data" by (rule preprocess_Inr_coercible)
  have keep: "p ''Academic Pressure'' = ?m ''Academic Pressure''"
    "p ''Financial Stress'' = ?m ''Financial Stress''"
    "p ''Sleep_Hours'' = ?m ''Sleep_Hours''"
    "p ''Diet_Score'' = ?m ''Diet_Score''"
    "p ''Have you ever had suicidal thoughts ?_encoded'' =
       ?m ''Have you ever had suicidal thoughts ?_encoded''"
    "p ''Family History of Mental Illness_encoded'' =
       ?m ''Family History of Mental Illness_encoded''"
    by (simp_all add: p add_risk_score_apply)
  have score: "p ''Risk_Score'' = Some (Num (calculate_risk_score ?m))"
    by (simp add: p add_risk_score_apply)
  let ?ap = "coerced stf data ''academic_pressure''"
  let ?fs = "coerced stf data ''financial_stress''"
  let ?sh = "the_num (the (?m ''Sleep_Hours''))"
  let ?ds = "the_num (the (?m ''Diet_Score''))"
  let ?st = "the_num (the (?m ''Have you ever had suicidal thoughts ?_encoded''))"
  let ?fh = "the_num (the (?m ''Family History of Mental Illness_encoded''))"
  have a: "p ''Academic Pressure'' = Some (Num ?ap)"
    and b: "p ''Financial Stress'' = Some (Num ?fs)"
    and c: "p ''Sleep_Hours'' = Some (Num ?sh)"
    and d: "p ''Diet_Score'' = Some (Num ?ds)"
    and e: "p ''Have you ever had suicidal thoughts ?_encoded'' = Some (Num ?st)"
    and f: "p ''Family History of Mental Illness_encoded'' = Some (Num ?fh)"
    unfolding keep using mapped_numeric(2,8)[of stf data] mapped_Num[of stf data] by simp_all
  have n: "''academic_pressure'' \<in> set numerical_features"
    "''financial_stress'' \<in> set numerical_features"
    by (simp_all add: numerical_features_def)
  note fap = coerced_finite[OF assms(2) co n(1)] and ffs = coerced_finite[OF assms(2) co n(2)]
  note sm = mapped_small[of stf data]
  have fin: "list_all finite_double [?ap, ?fs, ?sh, ?ds, ?st, ?fh]"
    using fap ffs sm by (simp only: list.pred_inject simp_thms)
  have g: "p ''Risk_Score'' = Some (Num (risk_formula ?ap ?fs ?sh ?ds ?st ?fh))"
    unfolding score calculate_risk_score_def risk_score_mapped[OF assms(2) co] by simp
  have st: "list_all finite_double (risk_formula_steps ?ap ?fs ?sh ?ds ?st ?fh)"
    by (rule risk_formula_steps_finite[OF fap ffs sm(1)[THEN conjunct2] sm(2)[THEN conjunct2]
          sm(3)[THEN conjunct2] sm(4)[THEN conjunct2]])
  have h: "?ap = 5 \<and> ?fs = 5 \<and> ?sh = 4 \<and> ?ds = 1 \<and> ?st = 1 \<and> ?fh = 1 \<longrightarrow>
      p ''Risk_Score'' = Some (Num (6305039478318695 / 2 ^ 51))"
  proof
    assume v: "?ap = 5 \<and> ?fs = 5 \<and> ?sh = 4 \<and> ?ds = 1 \<and> ?st = 1 \<and> ?fh = 1"
    have "risk_formula ?ap ?fs ?sh ?ds ?st ?fh = risk_formula 5 5 4 1 1 1"
      by (simp only: v)
    with g show "p ''Risk_Score'' = Some (Num (6305039478318695 / 2 ^ 51))"
      by (simp only: risk_formula_example)
  qed
  from a b c d e f fin g st h show ?thesis by blast
qed

text \<open>
  The claim at the answers \<open>stressed_student_text\<close>, whose financial stress is the text
  \<^verbatim>\<open>5.0\<close>: the mapper returns, the six values are 5, 5, 4, 1, 1, 1 and the score is
  \<open>6305039478318695 / 2 ^ 51\<close>.
\<close>

theorem risk_score_double_formula_witness:
  "float_parser five_parser \<and>
   stressed_student_text ''financial_stress'' = Some (Str ''5.0'') \<and>
   (\<exists>p. preprocess five_parser stressed_student_text = Inr p \<and>
        p ''Academic Pressure'' = Some (Num 5) \<and> p ''Financial Stress'' = Some (Num 5) \<and>
        p ''Sleep_Hours'' = Some (Num 4) \<and> p ''Diet_Score'' = Some (Num 1) \<and>
        p ''Have you ever had suicidal thoughts ?_encoded'' = Some (Num 1) \<and>
        p ''Family History of Mental Illness_encoded'' = Some (Num 1) \<and>
        p ''Risk_Score'' = Some (Num (6305039478318695 / 2 ^ 51)))"
proof -
  let ?p = "add_risk_score (mapped five_parser stressed_student_text)"
  have e: "preprocess five_parser stressed_student_text = Inr ?p"
    by (rule preprocess_coercible[OF stressed_student_text_coercible])
  from risk_score_double_formula[OF e float_parser_five_parser] obtain ap fs sh ds st fh where
    v: "?p ''Academic Pressure'' = Some (Num ap)"
       "?p ''Financial Stress'' = Some (Num fs)"
       "?p ''Sleep_Hours'' = Some (Num sh)"
       "?p ''Diet_Score'' = Some (Num ds)"
       "?p ''Have you ever had suicidal thoughts ?_encoded'' = Some (Num st)"
       "?p ''Family History of Mental Illness_encoded'' = Some (Num fh)"
    and imp: "ap = 5 \<and> fs = 5 \<and> sh = 4 \<and> ds = 1 \<and> st = 1 \<and> fh = 1 \<longrightarrow>
                ?p ''Risk_Score'' = Some (Num (6305039478318695 / 2 ^ 51))"
    by blast
  note s = stressed_student_text_stored
  have t: "stressed_student_text ''financial_stress'' = Some (Str ''5.0'')"
    by (simp add: stressed_student_text_def)
  from v s have "ap = 5 \<and> fs = 5 \<and> sh = 4 \<and> ds = 1 \<and> st = 1 \<and> fh = 1" by simp
  with imp have "?p ''Risk_Score'' = Some (Num (6305039478318695 / 2 ^ 51))" by blast
  with e s t float_parser_five_parser show ?thesis by blast
qed

text \<open>
  The score is not \<open>2.8\<close>: at the answers \<open>stressed_student\<close>, where the six values are
  5, 5, 4, 1, 1, 1, the stored score differs from the real number \<open>2.8\<close> and from the
  double that the literal \<^verbatim>\<open>2.8\<close> denotes, by less than \<open>2 ^ - 50\<close>.
\<close>

theorem risk_score_exact_formula_counterexample:
  "\<exists>p. preprocess no_float stressed_student = Inr p \<and>
        p ''Academic Pressure'' = Some (Num 5) \<and> p ''Financial Stress'' = Some (Num 5) \<and>
        p ''Sleep_Hours'' = Some (Num 4) \<and> p ''Diet_Score'' = Some (Num 1) \<and>
        p ''Have you ever had suicidal thoughts ?_encoded'' = Some (Num 1) \<and>
        p ''Family History of Mental Illness_encoded'' = Some (Num 1) \<and>
        p ''Risk_Score'' = Some (Num (6305039478318695 / 2 ^ 51)) \<and>
        p ''Risk_Score'' \<noteq> Some (Num 2.8) \<and>
        p ''Risk_Score'' \<noteq> Some (Num (to_double 2.8)) \<and>
        \<bar>6305039478318695 / 2 ^ 51 - 2.8 :: real\<bar> < 1 / 2 ^ 50"
proof -
  let ?p = "add_risk_score (mapped no_float stressed_student)"
  have e: "preprocess no_float stressed_student = Inr ?p"
    by (rule preprocess_coercible[OF stressed_student_coercible])
  note r = stressed_student_risk_score
  have "?p ''Risk_Score'' \<noteq> Some (Num 2.8)" unfolding r by simp
  moreover have "?p ''Risk_Score'' \<noteq> Some (Num (to_double 2.8))"
    unfolding r risk_formula_example_not_2_8(2) by simp
  moreover note risk_formula_example_not_2_8(3)
  ultimately show ?thesis using e r stressed_student_stored by blast
qed

section \<open>Completeness of the feature vector\<close>

lemma add_risk_score_mapped_dom:
  "add_risk_score (mapped stf data) k \<noteq> None \<longleftrightarrow> k \<in> set default_feature_columns"
  by (simp add: add_risk_score_apply mapped_apply default_feature_columns_def)

lemma coerced_absent: "data f = None \<Longrightarrow> coerced stf data f = 0"
  by (simp add: coerced_def)

lemma feature_names:
  "the (map_of feature_mapping ''age'') = ''Age''"
  "the (map_of feature_mapping ''academic_pressure'') = ''Academic Pressure''"
  "the (map_of feature_mapping ''work_pressure'') = ''Work Pressure''"
  "the (map_of feature_mapping ''cgpa'') = ''CGPA''"
  "the (map_of feature_mapping ''study_satisfaction'') = ''Study Satisfaction''"
  "the (map_of feature_mapping ''job_satisfaction'') = ''Job Satisfaction''"
  "the (map_of feature_mapping ''work_study_hours'') = ''Work/Study Hours''"
  "the (map_of feature_mapping ''financial_stress'') = ''Financial Stress''"
  by (simp_all add: feature_mapping_def)

lemma add_risk_score_keeps:
  "k \<noteq> ''Risk_Score'' \<Longrightarrow> add_risk_score pr k = pr k"
  by (simp add: add_risk_score_apply)

lemma absent_defaults:
  "\<forall>f \<in> set numerical_features. data f = None \<longrightarrow>
     add_risk_score (mapped stf data) (the (map_of feature_mapping f)) = Some (Num 0)"
  unfolding numerical_features_def
  by (simp add: feature_names add_risk_score_keeps mapped_numeric coerced_absent)

text \<open>
  Claim C6. For every raw input whose numerical fields, where present, can be coerced
  to a number (every valid input is one), \<^verbatim>\<open>preprocess\<close> returns a dictionary whose
  keys are exactly the fifteen declared feature names, and a numerical field that is
  absent from the input is stored as \<open>0.0\<close> under its feature name.
\<close>

theorem preprocess_complete:
  assumes "coercible stf data"
  shows "\<exists>p. preprocess stf data = Inr p \<and>
              dom p = set default_feature_columns \<and>
              (\<forall>feature \<in> set numerical_features.
                 data feature = None \<longrightarrow> p (the (map_of feature_mapping feature)) = Some (Num 0))"
proof -
  let ?p = "add_risk_score (mapped stf data)"
  have "preprocess stf data = Inr ?p" by (rule preprocess_coercible[OF assms])
  moreover have "dom ?p = set default_feature_columns"
  proof (rule set_eqI)
    fix k
    show "k \<in> dom ?p \<longleftrightarrow> k \<in> set default_feature_columns"
      unfolding domIff by (rule add_risk_score_mapped_dom)
  qed
  moreover note absent_defaults[of data stf]
  ultimately show ?thesis by blast
qed

text \<open>
  The claim at the answers \<open>stressed_student\<close>, which hold no \<^verbatim>\<open>age\<close>: the feature
  \<^verbatim>\<open>Age\<close> is stored as \<open>0.0\<close>.
\<close>

theorem preprocess_complete_witness:
  "coercible no_float stressed_student \<and>
   (\<exists>p. preprocess no_float stressed_student = Inr p \<and>
        dom p = set default_feature_columns \<and> p ''Age'' = Some (Num 0))"
proof -
  from preprocess_complete[OF stressed_student_coercible] obtain p where
    p: "preprocess no_float stressed_student = Inr p" "dom p = set default_feature_columns"
    and d: "\<forall>feature \<in> set numerical_features. stressed_student feature = None \<longrightarrow>
              p (the (map_of feature_mapping feature)) = Some (Num 0)"
    by blast
  have "''age'' \<in> set numerical_features" by (simp add: numerical_features_def)
  moreover have "stressed_student ''age'' = None" by (simp add: stressed_student_def)
  ultimately have "p (the (map_of feature_mapping ''age'')) = Some (Num 0)" using d by blast
  then have "p ''Age'' = Some (Num 0)" by (simp only: feature_names)
  with p stressed_student_coercible show ?thesis by blast
qed

section \<open>Errors of the preprocessor\<close>

lemma numerical_loop_Inl:
  assumes "numerical_loop stf data fs processed = Inl e"
    and "\<forall>f\<in>set fs. map_of feature_mapping f \<noteq> None"
  shows "\<exists>f\<in>set fs. \<exists>v. data f = Some v \<and> py_float stf v = Inl e"
  using assms
proof (induction fs arbitrary: processed)
  case Nil
  then show ?case by simp
next
  case (Cons g gs)
  from Cons.prems(2) obtain name where n: "map_of feature_mapping g = Some name" by auto
  from Cons.prems(2) have rest: "\<forall>f\<in>set gs. map_of feature_mapping f \<noteq> None" by simp
  show ?case
  proof (cases "data g")
    case None
    with Cons.prems(1) n have "numerical_loop stf data gs (processed(name \<mapsto> Num 0)) = Inl e"
      by (simp add: dict_index_def)
    from Cons.IH[OF this rest] show ?thesis by auto
  next
    case (Some v)
    show ?thesis
    proof (cases "py_float stf v")
      case (Inl e')
      with Cons.prems(1) Some have "e' = e" by simp
      with Inl Some show ?thesis by auto
    next
      case (Inr x)
      with Cons.prems(1) n Some
      have "numerical_loop stf data gs (processed(name \<mapsto> Num x)) = Inl e"
        by (simp add: dict_index_def)
      from Cons.IH[OF this rest] show ?thesis by auto
    qed
  qed
qed

text \<open>
  Claim C8. The computation of the risk score never makes \<^verbatim>\<open>preprocess\<close> raise.
  On every dictionary on which its expression raises, \<^verbatim>\<open>_calculate_risk_score\<close>
  returns \<open>0.0\<close>, which is stored under \<^verbatim>\<open>Risk_Score\<close> while every other entry is kept.
  An exception of \<^verbatim>\<open>preprocess\<close> is one that \<^verbatim>\<open>float\<close> raised on a numerical field
  present in the input; on every other input \<^verbatim>\<open>preprocess\<close> returns the complete
  feature vector: its keys are the fifteen feature names, its \<^verbatim>\<open>Risk_Score\<close> is the
  value of \<^verbatim>\<open>_calculate_risk_score\<close> on the dictionary built before the call, and its
  other entries are those of that dictionary. On the dictionaries that \<^verbatim>\<open>preprocess\<close>
  builds from finite floats the expression does not raise.
\<close>

theorem risk_score_never_aborts_preprocess:
  "(risk_score_sum processed = Inl e \<longrightarrow>
      calculate_risk_score processed = 0 \<and>
      add_risk_score processed = processed(''Risk_Score'' \<mapsto> Num 0)) \<and>
   (preprocess stf data = Inl err \<longrightarrow>
      (\<exists>f v. f \<in> set numerical_features \<and> data f = Some v \<and> py_float stf v = Inl err)) \<and>
   (coercible stf data \<longrightarrow>
      (\<exists>p. preprocess stf data = Inr p \<and> dom p = set default_feature_columns \<and>
           p ''Risk_Score'' = Some (Num (calculate_risk_score (mapped stf data))) \<and>
           (\<forall>k. k \<noteq> ''Risk_Score'' \<longrightarrow> p k = mapped stf data k))) \<and>
   (coercible stf data \<and> float_parser stf \<longrightarrow> \<not> isl (risk_score_sum (mapped stf data)))"
proof (intro conjI impI)
  assume r: "risk_score_sum processed = Inl e"
  then show z: "calculate_risk_score processed = 0" by (simp add: calculate_risk_score_def)
  then show "add_risk_score processed = processed(''Risk_Score'' \<mapsto> Num 0)"
    by (simp add: add_risk_score_def)
next
  assume l: "preprocess stf data = Inl err"
  have "numerical_loop stf data numerical_features Map.empty = Inl err"
  proof (cases "numerical_loop stf data numerical_features Map.empty")
    case (Inl a)
    with l show ?thesis by (simp add: preprocess_def bindE_def)
  next
    case (Inr b)
    with l show ?thesis by (simp add: preprocess_def bindE_def)
  qed
  from numerical_loop_Inl[OF this feature_mapping_total]
  show "\<exists>f v. f \<in> set numerical_features \<and> data f = Some v \<and> py_float stf v = Inl err"
    by blast
next
  assume co: "coercible stf data"
  let ?p = "add_risk_score (mapped stf data)"
  have "preprocess stf data = Inr ?p" by (rule preprocess_coercible[OF co])
  moreover have "dom ?p = set default_feature_columns"
  proof (rule set_eqI)
    fix k
    show "k \<in> dom ?p \<longleftrightarrow> k \<in> set default_feature_columns"
      unfolding domIff by (rule add_risk_score_mapped_dom)
  qed
  moreover have "?p ''Risk_Score'' = Some (Num (calculate_risk_score (mapped stf data)))"
    by (simp add: add_risk_score_apply)
  moreover have "\<forall>k. k \<noteq> ''Risk_Score'' \<longrightarrow> ?p k = mapped stf data k"
    by (simp add: add_risk_score_apply)
  ultimately show "\<exists>p. preprocess stf data = Inr p \<and> dom p = set default_feature_columns \<and>
           p ''Risk_Score'' = Some (Num (calculate_risk_score (mapped stf data))) \<and>
           (\<forall>k. k \<noteq> ''Risk_Score'' \<longrightarrow> p k = mapped stf data k)"
    by blast
next
  assume "coercible stf data \<and> float_parser stf"
  then have "coercible stf data" "float_parser stf" by simp_all
  from risk_score_mapped[OF this(2) this(1)]
  show "\<not> isl (risk_score_sum (mapped stf data))" by simp
qed

text \<open>
  The claim on a dictionary whose academic pressure is a string, where the product
  with \<open>0.2\<close> raises \<^verbatim>\<open>TypeError\<close> and the score is \<open>0.0\<close>; at an input whose \<^verbatim>\<open>cgpa\<close> is
  no float literal, where \<^verbatim>\<open>preprocess\<close> raises the \<^verbatim>\<open>ValueError\<close> of \<^verbatim>\<open>float\<close>; and at
  the answers \<open>stressed_student\<close>, where it returns the complete vector.
\<close>

theorem risk_score_never_aborts_preprocess_witness:
  "risk_score_sum [''Academic Pressure'' \<mapsto> Str ''high''] = Inl TypeError \<and>
   calculate_risk_score [''Academic Pressure'' \<mapsto> Str ''high''] = 0 \<and>
   add_risk_score [''Academic Pressure'' \<mapsto> Str ''high''] =
     [''Academic Pressure'' \<mapsto> Str ''high'', ''Risk_Score'' \<mapsto> Num 0] \<and>
   preprocess no_float [''age'' \<mapsto> Num 20, ''cgpa'' \<mapsto> Str ''seven''] = Inl ValueError \<and>
   (\<exists>f v. f \<in> set numerical_features \<and>
          [''age'' \<mapsto> Num 20, ''cgpa'' \<mapsto> Str ''seven''] f = Some v \<and>
          py_float no_float v = Inl ValueError) \<and>
   coercible no_float stressed_student \<and> float_parser no_float \<and>
   (\<exists>p. preprocess no_float stressed_student = Inr p \<and>
        dom p = set default_feature_columns \<and>
        p ''Risk_Score'' = Some (Num (calculate_risk_score (mapped no_float stressed_student)))) \<and>
   \<not> isl (risk_score_sum (mapped no_float stressed_student))"
proof -
  let ?d = "[''Academic Pressure'' \<mapsto> Str ''high'']"
  let ?x = "[''age'' \<mapsto> Num 20, ''cgpa'' \<mapsto> Str ''seven'']"
  have r: "risk_score_sum ?d = Inl TypeError"
    by (simp add: risk_score_sum_def bindE_def dict_get_def py_mul_def)
  have l: "preprocess no_float ?x = Inl ValueError"
    by (simp add: preprocess_def bindE_def numerical_features_def py_float_def to_float_def
          no_float_def dict_index_def feature_mapping_def)
  note c = stressed_student_coercible and fp = float_parser_no_float
  note t1 = risk_score_never_aborts_preprocess[where processed="?d" and e=TypeError
      and stf=no_float and data="?x" and err=ValueError]
  note t2 = risk_score_never_aborts_preprocess[where stf=no_float and data=stressed_student]
  from t1 r have a: "calculate_risk_score ?d = 0"
    "add_risk_score ?d = ?d(''Risk_Score'' \<mapsto> Num 0)" by blast+
  from t1 l have b: "\<exists>f v. f \<in> set numerical_features \<and> ?x f = Some v \<and>
      py_float no_float v = Inl ValueError" by blast
  from t2 c have d: "\<exists>p. preprocess no_float stressed_student = Inr p \<and>
        dom p = set default_feature_columns \<and>
        p ''Risk_Score'' = Some (Num (calculate_risk_score (mapped no_float stressed_student)))"
    by blast
  from t2 c fp have e: "\<not> isl (risk_score_sum (mapped no_float stressed_student))" by blast
  from r a b l c fp d e show ?thesis by (simp only: simp_thms)
qed

text \<open>
  Claim C10. When a numerical field is present in the raw input and \<^verbatim>\<open>float\<close> raises
  on its value, \<^verbatim>\<open>preprocess\<close> raises and returns no dictionary: the exception is the
  one \<^verbatim>\<open>float\<close> raised on a numerical field of the input. Only an absent field is
  stored as \<open>0.0\<close> (claim C6).
\<close>

theorem malformed_numeric_field_raises:
  assumes "feature \<in> set numerical_features"
    and "data feature = Some v"
    and "py_float stf v = Inl e"
  shows "\<exists>e' f' v'. preprocess stf data = Inl e' \<and> f' \<in> set numerical_features \<and>
           data f' = Some v' \<and> py_float stf v' = Inl e'"
proof -
  from numerical_loop_fails[where data=data and stf=stf, OF assms] obtain e' where
    l: "numerical_loop stf data numerical_features Map.empty = Inl e'" by blast
  from numerical_loop_Inl[OF l feature_mapping_total] obtain f' v' where
    "f' \<in> set numerical_features" "data f' = Some v'" "py_float stf v' = Inl e'" by blast
  moreover from l have "preprocess stf data = Inl e'" by (simp add: preprocess_def bindE_def)
  ultimately show ?thesis by blast
qed

text \<open>The claim at an input whose \<^verbatim>\<open>cgpa\<close> is a string that is no float literal.\<close>

theorem malformed_numeric_field_raises_witness:
  "''cgpa'' \<in> set numerical_features \<and>
   [''age'' \<mapsto> Num 20, ''cgpa'' \<mapsto> Str ''seven''] ''cgpa'' = Some (Str ''seven'') \<and>
   py_float no_float (Str ''seven'') = Inl ValueError \<and>
   (\<exists>e'. preprocess no_float [''age'' \<mapsto> Num 20, ''cgpa'' \<mapsto> Str ''seven''] = Inl e')"
proof -
  have a: "''cgpa'' \<in> set numerical_features" by (simp add: numerical_features_def)
  have b: "[''age'' \<mapsto> Num 20, ''cgpa'' \<mapsto> Str ''seven''] ''cgpa'' = Some (Str ''seven'')"
    by simp
  have c: "py_float no_float (Str ''seven'') = Inl ValueError"
    by (simp add: py_float_def no_float_def)
  from malformed_numeric_field_raises[where stf=no_float and
      data="[''age'' \<mapsto> Num 20, ''cgpa'' \<mapsto> Str ''seven'']", OF a b c]
  obtain e' where "preprocess no_float [''age'' \<mapsto> Num 20, ''cgpa'' \<mapsto> Str ''seven''] = Inl e'"
    by blast
  with a b c show ?thesis by blast
qed

section \<open>The labels of the response: results\<close>



section \<open>The risk factor analyzer: lemmas\<close>

lemma bindE_Inr: "bindE m f = Inr y \<Longrightarrow> \<exists>x. m = Inr x \<and> f x = Inr y"
  by (cases m) (simp_all add: bindE_def)

lemma bindE_Inl: "m = Inl e \<Longrightarrow> bindE m f = Inl e"
  by (simp add: bindE_def)

lemma mk_factor_apply:
  "mk_factor name v imp descr ''factor'' = Some (Str name)"
  "mk_factor name v imp descr ''value'' = Some v"
  "mk_factor name v imp descr ''impact'' = Some (Str imp)"
  "mk_factor name v imp descr ''description'' = Some (Str descr)"
  by (simp_all add: mk_factor_def)

lemma appended_mk_factor:
  assumes "imp = ''High'' \<or> imp = ''Medium''"
  shows "appended name [mk_factor name v imp descr]"
proof -
  let ?d = "mk_factor name v imp descr"
  have "?d ''factor'' = Some (Str name)" by (rule mk_factor_apply)
  moreover from assms have "?d ''impact'' = Some (Str ''High'') \<or> ?d ''impact'' = Some (Str ''Medium'')"
    by (auto simp only: mk_factor_apply)
  ultimately show ?thesis unfolding appended_def by blast
qed

lemma appended_Nil: "appended name []"
  by (simp add: appended_def)

lemma rule_academic_pressure_Num:
  assumes "dict_get data ''academic_pressure'' (Num 0) = Num r"
  shows "\<exists>fs. rule_academic_pressure fmt data rf = Inr (rf @ fs) \<and> appended ''High Academic Pressure'' fs"
proof (cases "r \<ge> 4")
  case True
  let ?d = "mk_factor ''High Academic Pressure'' (Num r) (if r \<ge> 5 then ''High'' else ''Medium'')
              (''Academic pressure level of '' @ fmt (Num r) @ ''/5 indicates significant stress'')"
  have "rule_academic_pressure fmt data rf = Inr (rf @ [?d])"
    using assms True by (simp add: rule_academic_pressure_def Let_def bindE_def py_ge_def)
  moreover have "appended ''High Academic Pressure'' [?d]"
    by (rule appended_mk_factor) simp
  ultimately show ?thesis by blast
next
  case False
  have "rule_academic_pressure fmt data rf = Inr (rf @ [])"
    using assms False by (auto simp: rule_academic_pressure_def Let_def bindE_def py_ge_def)
  then show ?thesis using appended_Nil by blast
qed

lemma rule_academic_pressure_not_Num:
  assumes "\<not> is_Num (dict_get data ''academic_pressure'' (Num 0))"
  shows "rule_academic_pressure fmt data rf = Inl TypeError"
  using assms
  by (cases "dict_get data ''academic_pressure'' (Num 0)")
     (simp_all add: rule_academic_pressure_def Let_def bindE_def py_ge_def)

lemma rule_financial_stress_Num:
  assumes "dict_get data ''financial_stress'' (Num 0) = Num r"
  shows "\<exists>fs. rule_financial_stress fmt data rf = Inr (rf @ fs) \<and> appended ''High Financial Stress'' fs"
proof (cases "r \<ge> 4")
  case True
  let ?d = "mk_factor ''High Financial Stress'' (Num r) (if r \<ge> 5 then ''High'' else ''Medium'')
              (''Financial stress level of '' @ fmt (Num r) @ ''/5 indicates significant financial pressure'')"
  have "rule_financial_stress fmt data rf = Inr (rf @ [?d])"
    using assms True by (simp add: rule_financial_stress_def Let_def bindE_def py_ge_def)
  moreover have "appended ''High Financial Stress'' [?d]"
    by (rule appended_mk_factor) simp
  ultimately show ?thesis by blast
next
  case False
  have "rule_financial_stress fmt data rf = Inr (rf @ [])"
    using assms False by (auto simp: rule_financial_stress_def Let_def bindE_def py_ge_def)
  then show ?thesis using appended_Nil by blast
qed

lemma rule_financial_stress_not_Num:
  assumes "\<not> is_Num (dict_get data ''financial_stress'' (Num 0))"
  shows "rule_financial_stress fmt data rf = Inl TypeError"
  using assms
  by (cases "dict_get data ''financial_stress'' (Num 0)")
     (simp_all add: rule_financial_stress_def Let_def bindE_def py_ge_def)

lemma rule_work_pressure_Num:
  assumes "dict_get data ''work_pressure'' (Num 0) = Num r"
  shows "\<exists>fs. rule_work_pressure fmt data rf = Inr (rf @ fs) \<and> appended ''High Work Pressure'' fs"
proof (cases "r \<ge> 4")
  case True
  let ?d = "mk_factor ''High Work Pressure'' (Num r) (if r \<ge> 5 then ''High'' else ''Medium'')
              (''Work pressure level of '' @ fmt (Num r) @ ''/5 indicates significant workplace stress'')"
  have "rule_work_pressure fmt data rf = Inr (rf @ [?d])"
    using assms True by (simp add: rule_work_pressure_def Let_def bindE_def py_ge_def)
  moreover have "appended ''High Work Pressure'' [?d]"
    by (rule appended_mk_factor) simp
  ultimately show ?thesis by blast
next
  case False
  have "rule_work_pressure fmt data rf = Inr (rf @ [])"
    using assms False by (auto simp: rule_work_pressure_def Let_def bindE_def py_ge_def)
  then show ?thesis using appended_Nil by blast
qed

lemma rule_work_pressure_not_Num:
  assumes "\<not> is_Num (dict_get data ''work_pressure'' (Num 0))"
  shows "rule_work_pressure fmt data rf = Inl TypeError"
  using assms
  by (cases "dict_get data ''work_pressure'' (Num 0)")
     (simp_all add: rule_work_pressure_def Let_def bindE_def py_ge_def)

lemma rule_study_satisfaction_Num:
  assumes "dict_get data ''study_satisfaction'' (Num 0) = Num r"
  shows "\<exists>fs. rule_study_satisfaction fmt data rf = Inr (rf @ fs) \<and> appended ''Low Study Satisfaction'' fs"
proof (cases "r \<le> 2")
  case True
  let ?d = "mk_factor ''Low Study Satisfaction'' (Num r) ''Medium''
              (''Study satisfaction level of '' @ fmt (Num r) @ ''/5 indicates dissatisfaction with academic life'')"
  have "rule_study_satisfaction fmt data rf = Inr (rf @ [?d])"
    using assms True by (simp add: rule_study_satisfaction_def Let_def bindE_def py_le_def)
  moreover have "appended ''Low Study Satisfaction'' [?d]"
    by (rule appended_mk_factor) simp
  ultimately show ?thesis by blast
next
  case False
  have "rule_study_satisfaction fmt data rf = Inr (rf @ [])"
    using assms False by (auto simp: rule_study_satisfaction_def Let_def bindE_def py_le_def)
  then show ?thesis using appended_Nil by blast
qed

lemma rule_study_satisfaction_not_Num:
  assumes "\<not> is_Num (dict_get data ''study_satisfaction'' (Num 0))"
  shows "rule_study_satisfaction fmt data rf = Inl TypeError"
  using assms
  by (cases "dict_get data ''study_satisfaction'' (Num 0)")
     (simp_all add: rule_study_satisfaction_def Let_def bindE_def py_le_def)

lemma rule_job_satisfaction_Num:
  assumes "dict_get data ''job_satisfaction'' (Num 0) = Num r"
  shows "\<exists>fs. rule_job_satisfaction fmt data rf = Inr (rf @ fs) \<and> appended ''Low Job Satisfaction'' fs"
proof (cases "r \<le> 2 \<and> r > 0")
  case True
  let ?d = "mk_factor ''Low Job Satisfaction'' (Num r) ''Medium''
              (''Job satisfaction level of '' @ fmt (Num r) @ ''/5 indicates workplace dissatisfaction'')"
  have "rule_job_satisfaction fmt data rf = Inr (rf @ [?d])"
    using assms True by (simp add: rule_job_satisfaction_def Let_def bindE_def py_le_def py_gt_def)
  moreover have "appended ''Low Job Satisfaction'' [?d]"
    by (rule appended_mk_factor) simp
  ultimately show ?thesis by blast
next
  case False
  have "rule_job_satisfaction fmt data rf = Inr (rf @ [])"
    using assms False by (auto simp: rule_job_satisfaction_def Let_def bindE_def py_le_def py_gt_def)
  then show ?thesis using appended_Nil by blast
qed

lemma rule_job_satisfaction_not_Num:
  assumes "\<not> is_Num (dict_get data ''job_satisfaction'' (Num 0))"
  shows "rule_job_satisfaction fmt data rf = Inl TypeError"
  using assms
  by (cases "dict_get data ''job_satisfaction'' (Num 0)")
     (simp_all add: rule_job_satisfaction_def Let_def bindE_def py_le_def py_gt_def)

lemma rule_cgpa_Num:
  assumes "dict_get data ''cgpa'' (Num 0) = Num r"
  shows "\<exists>fs. rule_cgpa fmt data rf = Inr (rf @ fs) \<and> appended ''Low Academic Performance'' fs"
proof (cases "r < 6")
  case True
  let ?d = "mk_factor ''Low Academic Performance'' (Num r) ''Medium''
              (''CGPA of '' @ fmt (Num r) @ '' may indicate academic struggles affecting mental health'')"
  have "rule_cgpa fmt data rf = Inr (rf @ [?d])"
    using assms True by (simp add: rule_cgpa_def Let_def bindE_def py_lt_def)
  moreover have "appended ''Low Academic Performance'' [?d]"
    by (rule appended_mk_factor) simp
  ultimately show ?thesis by blast
next
  case False
  have "rule_cgpa fmt data rf = Inr (rf @ [])"
    using assms False by (auto simp: rule_cgpa_def Let_def bindE_def py_lt_def)
  then show ?thesis using appended_Nil by blast
qed

lemma rule_cgpa_not_Num:
  assumes "\<not> is_Num (dict_get data ''cgpa'' (Num 0))"
  shows "rule_cgpa fmt data rf = Inl TypeError"
  using assms
  by (cases "dict_get data ''cgpa'' (Num 0)")
     (simp_all add: rule_cgpa_def Let_def bindE_def py_lt_def)

lemma rule_sleep_Inr:
  "\<exists>fs. rule_sleep fmt data rf = Inr (rf @ fs) \<and> appended ''Insufficient Sleep'' fs"
proof (cases "dict_get data ''sleep_duration'' (Str ''7-8 hours'') \<in>
                set [Str ''Less than 5 hours'', Str ''5-6 hours'']")
  case True
  let ?v = "dict_get data ''sleep_duration'' (Str ''7-8 hours'')"
  let ?d = "mk_factor ''Insufficient Sleep'' ?v
              (if ?v = Str ''Less than 5 hours'' then ''High'' else ''Medium'')
              (''Sleep duration of '' @ fmt ?v @ '' may contribute to mental health issues'')"
  have "rule_sleep fmt data rf = Inr (rf @ [?d])"
    using True unfolding rule_sleep_def Let_def by (simp only: if_True)
  moreover have "appended ''Insufficient Sleep'' [?d]"
    by (rule appended_mk_factor) simp
  ultimately show ?thesis by blast
next
  case False
  have "rule_sleep fmt data rf = Inr (rf @ [])"
    using False unfolding rule_sleep_def Let_def by (simp only: if_False append_Nil2)
  then show ?thesis using appended_Nil by blast
qed

lemma rule_diet_Inr:
  "\<exists>fs. rule_diet data rf = Inr (rf @ fs) \<and> appended ''Unhealthy Diet'' fs"
proof (cases "dict_get data ''dietary_habits'' (Str ''Moderate'') = Str ''Unhealthy''")
  case True
  let ?d = "mk_factor ''Unhealthy Diet'' (dict_get data ''dietary_habits'' (Str ''Moderate''))
              ''Medium'' ''Unhealthy dietary habits may negatively impact mental health''"
  have "rule_diet data rf = Inr (rf @ [?d])"
    using True by (simp add: rule_diet_def Let_def)
  moreover have "appended ''Unhealthy Diet'' [?d]"
    by (rule appended_mk_factor) simp
  ultimately show ?thesis by blast
next
  case False
  have "rule_diet data rf = Inr (rf @ [])"
    using False unfolding rule_diet_def Let_def by (simp only: if_False append_Nil2)
  then show ?thesis using appended_Nil by blast
qed

lemma rule_family_history_Inr:
  "\<exists>fs. rule_family_history data rf = Inr (rf @ fs) \<and>
          appended ''Family History of Mental Illness'' fs"
proof (cases "dict_get data ''family_history'' (Str ''No'') = Str ''Yes''")
  case True
  let ?d = "mk_factor ''Family History of Mental Illness''
              (dict_get data ''family_history'' (Str ''No'')) ''Medium''
              ''Family history of mental illness increases risk of developing similar conditions''"
  have "rule_family_history data rf = Inr (rf @ [?d])"
    using True by (simp add: rule_family_history_def Let_def)
  moreover have "appended ''Family History of Mental Illness'' [?d]"
    by (rule appended_mk_factor) simp
  ultimately show ?thesis by blast
next
  case False
  have "rule_family_history data rf = Inr (rf @ [])"
    using False unfolding rule_family_history_def Let_def by (simp only: if_False append_Nil2)
  then show ?thesis using appended_Nil by blast
qed

lemma rule_suicidal_thoughts_eq:
  "rule_suicidal_thoughts data rf =
     Inr (rf @ (if dict_get data ''suicidal_thoughts'' (Str ''No'') = Str ''Yes''
                then [suicidal_factor] else []))"
  by (simp add: rule_suicidal_thoughts_def suicidal_factor_def Let_def)

lemma rule_academic_pressure_ok:
  assumes "is_Num (dict_get data ''academic_pressure'' (Num 0))"
  shows "\<exists>fs. rule_academic_pressure fmt data rf = Inr (rf @ fs) \<and> appended ''High Academic Pressure'' fs"
proof -
  from assms obtain r where "dict_get data ''academic_pressure'' (Num 0) = Num r"
    by (cases "dict_get data ''academic_pressure'' (Num 0)") simp_all
  then show ?thesis by (rule rule_academic_pressure_Num)
qed

lemma rule_academic_pressure_Inl:
  assumes "rule_academic_pressure fmt data rf = Inl e"
  shows "e = TypeError \<and> \<not> is_Num (dict_get data ''academic_pressure'' (Num 0))"
proof (cases "is_Num (dict_get data ''academic_pressure'' (Num 0))")
  case True
  from rule_academic_pressure_ok[OF True, of fmt rf] assms show ?thesis by auto
next
  case False
  from rule_academic_pressure_not_Num[OF False, of fmt rf] assms False show ?thesis by simp
qed

lemma rule_financial_stress_ok:
  assumes "is_Num (dict_get data ''financial_stress'' (Num 0))"
  shows "\<exists>fs. rule_financial_stress fmt data rf = Inr (rf @ fs) \<and> appended ''High Financial Stress'' fs"
proof -
  from assms obtain r where "dict_get data ''financial_stress'' (Num 0) = Num r"
    by (cases "dict_get data ''financial_stress'' (Num 0)") simp_all
  then show ?thesis by (rule rule_financial_stress_Num)
qed

lemma rule_financial_stress_Inl:
  assumes "rule_financial_stress fmt data rf = Inl e"
  shows "e = TypeError \<and> \<not> is_Num (dict_get data ''financial_stress'' (Num 0))"
proof (cases "is_Num (dict_get data ''financial_stress'' (Num 0))")
  case True
  from rule_financial_stress_ok[OF True, of fmt rf] assms show ?thesis by auto
next
  case False
  from rule_financial_stress_not_Num[OF False, of fmt rf] assms False show ?thesis by simp
qed

lemma rule_work_pressure_ok:
  assumes "is_Num (dict_get data ''work_pressure'' (Num 0))"
  shows "\<exists>fs. rule_work_pressure fmt data rf = Inr (rf @ fs) \<and> appended ''High Work Pressure'' fs"
proof -
  from assms obtain r where "dict_get data ''work_pressure'' (Num 0) = Num r"
    by (cases "dict_get data ''work_pressure'' (Num 0)") simp_all
  then show ?thesis by (rule rule_work_pressure_Num)
qed

lemma rule_work_pressure_Inl:
  assumes "rule_work_pressure fmt data rf = Inl e"
  shows "e = TypeError \<and> \<not> is_Num (dict_get data ''work_pressure'' (Num 0))"
proof (cases "is_Num (dict_get data ''work_pressure'' (Num 0))")
  case True
  from rule_work_pressure_ok[OF True, of fmt rf] assms show ?thesis by auto
next
  case False
  from rule_work_pressure_not_Num[OF False, of fmt rf] assms False show ?thesis by simp
qed

lemma rule_study_satisfaction_ok:
  assumes "is_Num (dict_get data ''study_satisfaction'' (Num 0))"
  shows "\<exists>fs. rule_study_satisfaction fmt data rf = Inr (rf @ fs) \<and> appended ''Low Study Satisfaction'' fs"
proof -
  from assms obtain r where "dict_get data ''study_satisfaction'' (Num 0) = Num r"
    by (cases "dict_get data ''study_satisfaction'' (Num 0)") simp_all
  then show ?thesis by (rule rule_study_satisfaction_Num)
qed

lemma rule_study_satisfaction_Inl:
  assumes "rule_study_satisfaction fmt data rf = Inl e"
  shows "e = TypeError \<and> \<not> is_Num (dict_get data ''study_satisfaction'' (Num 0))"
proof (cases "is_Num (dict_get data ''study_satisfaction'' (Num 0))")
  case True
  from rule_study_satisfaction_ok[OF True, of fmt rf] assms show ?thesis by auto
next
  case False
  from rule_study_satisfaction_not_Num[OF False, of fmt rf] assms False show ?thesis by simp
qed

lemma rule_job_satisfaction_ok:
  assumes "is_Num (dict_get data ''job_satisfaction'' (Num 0))"
  shows "\<exists>fs. rule_job_satisfaction fmt data rf = Inr (rf @ fs) \<and> appended ''Low Job Satisfaction'' fs"
proof -
  from assms obtain r where "dict_get data ''job_satisfaction'' (Num 0) = Num r"
    by (cases "dict_get data ''job_satisfaction'' (Num 0)") simp_all
  then show ?thesis by (rule rule_job_satisfaction_Num)
qed

lemma rule_job_satisfaction_Inl:
  assumes "rule_job_satisfaction fmt data rf = Inl e"
  shows "e = TypeError \<and> \<not> is_Num (dict_get data ''job_satisfaction'' (Num 0))"
proof (cases "is_Num (dict_get data ''job_satisfaction'' (Num 0))")
  case True
  from rule_job_satisfaction_ok[OF True, of fmt rf] assms show ?thesis by auto
next
  case False
  from rule_job_satisfaction_not_Num[OF False, of fmt rf] assms False show ?thesis by simp
qed

lemma rule_cgpa_ok:
  assumes "is_Num (dict_get data ''cgpa'' (Num 0))"
  shows "\<exists>fs. rule_cgpa fmt data rf = Inr (rf @ fs) \<and> appended ''Low Academic Performance'' fs"
proof -
  from assms obtain r where "dict_get data ''cgpa'' (Num 0) = Num r"
    by (cases "dict_get data ''cgpa'' (Num 0)") simp_all
  then show ?thesis by (rule rule_cgpa_Num)
qed

lemma rule_cgpa_Inl:
  assumes "rule_cgpa fmt data rf = Inl e"
  shows "e = TypeError \<and> \<not> is_Num (dict_get data ''cgpa'' (Num 0))"
proof (cases "is_Num (dict_get data ''cgpa'' (Num 0))")
  case True
  from rule_cgpa_ok[OF True, of fmt rf] assms show ?thesis by auto
next
  case False
  from rule_cgpa_not_Num[OF False, of fmt rf] assms False show ?thesis by simp
qed

lemma numbers_where_compared_iff:
  "numbers_where_compared data \<longleftrightarrow>
     is_Num (dict_get data ''academic_pressure'' (Num 0)) \<and>
     is_Num (dict_get data ''financial_stress'' (Num 0)) \<and>
     is_Num (dict_get data ''work_pressure'' (Num 0)) \<and>
     is_Num (dict_get data ''study_satisfaction'' (Num 0)) \<and>
     is_Num (dict_get data ''job_satisfaction'' (Num 0)) \<and>
     is_Num (dict_get data ''cgpa'' (Num 0))"
  by (simp add: numbers_where_compared_def compared_fields_def dict_get_def split: option.splits)

text \<open>The result of the rules on an input whose compared fields are numbers.\<close>

lemma risk_rules_ok:
  assumes "numbers_where_compared data"
  shows "\<exists>f1 f2 f3 f4 f6 f7 f8 f9 f10.
           risk_rules fmt data =
             Inr (f1 @ f2 @ f3 @ f4 @
                  (if dict_get data ''suicidal_thoughts'' (Str ''No'') = Str ''Yes''
                   then [suicidal_factor] else []) @
                  f6 @ f7 @ f8 @ f9 @ f10) \<and>
           appended ''High Academic Pressure'' f1 \<and>
           appended ''High Financial Stress'' f2 \<and>
           appended ''Insufficient Sleep'' f3 \<and>
           appended ''Unhealthy Diet'' f4 \<and>
           appended ''Family History of Mental Illness'' f6 \<and>
           appended ''High Work Pressure'' f7 \<and>
           appended ''Low Study Satisfaction'' f8 \<and>
           appended ''Low Job Satisfaction'' f9 \<and>
           appended ''Low Academic Performance'' f10"
proof -
  let ?s = "if dict_get data ''suicidal_thoughts'' (Str ''No'') = Str ''Yes''
            then [suicidal_factor] else []"
  from assms have n: "is_Num (dict_get data ''academic_pressure'' (Num 0))"
    "is_Num (dict_get data ''financial_stress'' (Num 0))"
    "is_Num (dict_get data ''work_pressure'' (Num 0))"
    "is_Num (dict_get data ''study_satisfaction'' (Num 0))"
    "is_Num (dict_get data ''job_satisfaction'' (Num 0))"
    "is_Num (dict_get data ''cgpa'' (Num 0))"
    by (simp_all add: numbers_where_compared_iff)
  from rule_academic_pressure_ok[OF n(1)] obtain f1 where
    r1: "rule_academic_pressure fmt data [] = Inr ([] @ f1)"
    and a1: "appended ''High Academic Pressure'' f1" by blast
  from rule_financial_stress_ok[OF n(2)] obtain f2 where
    r2: "rule_financial_stress fmt data ([] @ f1) = Inr (([] @ f1) @ f2)"
    and a2: "appended ''High Financial Stress'' f2" by blast
  from rule_sleep_Inr obtain f3 where
    r3: "rule_sleep fmt data (([] @ f1) @ f2) = Inr ((([] @ f1) @ f2) @ f3)"
    and a3: "appended ''Insufficient Sleep'' f3" by blast
  from rule_diet_Inr obtain f4 where
    r4: "rule_diet data ((([] @ f1) @ f2) @ f3) = Inr (((([] @ f1) @ f2) @ f3) @ f4)"
    and a4: "appended ''Unhealthy Diet'' f4" by blast
  let ?r5 = "(((([] @ f1) @ f2) @ f3) @ f4) @ ?s"
  have r5: "rule_suicidal_thoughts data (((([] @ f1) @ f2) @ f3) @ f4) = Inr ?r5"
    by (rule rule_suicidal_thoughts_eq)
  from rule_family_history_Inr obtain f6 where
    r6: "rule_family_history data ?r5 = Inr (?r5 @ f6)"
    and a6: "appended ''Family History of Mental Illness'' f6" by blast
  from rule_work_pressure_ok[OF n(3)] obtain f7 where
    r7: "rule_work_pressure fmt data (?r5 @ f6) = Inr ((?r5 @ f6) @ f7)"
    and a7: "appended ''High Work Pressure'' f7" by blast
  from rule_study_satisfaction_ok[OF n(4)] obtain f8 where
    r8: "rule_study_satisfaction fmt data ((?r5 @ f6) @ f7) = Inr (((?r5 @ f6) @ f7) @ f8)"
    and a8: "appended ''Low Study Satisfaction'' f8" by blast
  from rule_job_satisfaction_ok[OF n(5)] obtain f9 where
    r9: "rule_job_satisfaction fmt data (((?r5 @ f6) @ f7) @ f8) =
           Inr ((((?r5 @ f6) @ f7) @ f8) @ f9)"
    and a9: "appended ''Low Job Satisfaction'' f9" by blast
  from rule_cgpa_ok[OF n(6)] obtain f10 where
    r10: "rule_cgpa fmt data ((((?r5 @ f6) @ f7) @ f8) @ f9) =
           Inr (((((?r5 @ f6) @ f7) @ f8) @ f9) @ f10)"
    and a10: "appended ''Low Academic Performance'' f10" by blast
  have "risk_rules fmt data = Inr (((((?r5 @ f6) @ f7) @ f8) @ f9) @ f10)"
    unfolding risk_rules_def
    by (simp only: r1 r2 r3 r4 r5 r6 r7 r8 r9 r10 bindE_def sum.case)
  then have "risk_rules fmt data = Inr (f1 @ f2 @ f3 @ f4 @ ?s @ f6 @ f7 @ f8 @ f9 @ f10)"
    by (simp only: append_Nil append_assoc)
  with a1 a2 a3 a4 a6 a7 a8 a9 a10 show ?thesis by blast
qed

lemma bindE_Inl_cases:
  "bindE m f = Inl e \<Longrightarrow> m = Inl e \<or> (\<exists>x. m = Inr x \<and> f x = Inl e)"
  by (cases m) (simp_all add: bindE_def)

text \<open>The rules raise exactly when a compared field is not a number, and then
  \<^verbatim>\<open>TypeError\<close>.\<close>

lemma risk_rules_Inl:
  assumes "risk_rules fmt data = Inl e"
  shows "e = TypeError \<and> \<not> numbers_where_compared data"
proof -
  have s: "rule_sleep fmt data rf \<noteq> Inl e" for rf
    using rule_sleep_Inr[of fmt data rf] by auto
  have d: "rule_diet data rf \<noteq> Inl e" for rf
    using rule_diet_Inr[of data rf] by auto
  have u: "rule_suicidal_thoughts data rf \<noteq> Inl e" for rf
    by (simp only: rule_suicidal_thoughts_eq) simp
  have f: "rule_family_history data rf \<noteq> Inl e" for rf
    using rule_family_history_Inr[of data rf] by auto
  from assms consider rf where "rule_academic_pressure fmt data rf = Inl e"
    | rf where "rule_financial_stress fmt data rf = Inl e"
    | rf where "rule_work_pressure fmt data rf = Inl e"
    | rf where "rule_study_satisfaction fmt data rf = Inl e"
    | rf where "rule_job_satisfaction fmt data rf = Inl e"
    | rf where "rule_cgpa fmt data rf = Inl e"
    unfolding risk_rules_def using s d u f by (blast dest!: bindE_Inl_cases)
  then show ?thesis
  proof cases
    case 1
    from rule_academic_pressure_Inl[OF 1] show ?thesis
      by (simp add: numbers_where_compared_iff)
  next
    case 2
    from rule_financial_stress_Inl[OF 2] show ?thesis
      by (simp add: numbers_where_compared_iff)
  next
    case 3
    from rule_work_pressure_Inl[OF 3] show ?thesis
      by (simp add: numbers_where_compared_iff)
  next
    case 4
    from rule_study_satisfaction_Inl[OF 4] show ?thesis
      by (simp add: numbers_where_compared_iff)
  next
    case 5
    from rule_job_satisfaction_Inl[OF 5] show ?thesis
      by (simp add: numbers_where_compared_iff)
  next
    case 6
    from rule_cgpa_Inl[OF 6] show ?thesis
      by (simp add: numbers_where_compared_iff)
  qed
qed

lemma risk_rules_Inr_numbers:
  assumes "risk_rules fmt data = Inr out"
  shows "numbers_where_compared data"
proof (rule ccontr)
  assume n: "\<not> numbers_where_compared data"
  from assms have ex: "(\<exists>rf rf'. rule_academic_pressure fmt data rf = Inr rf') \<and>
      (\<exists>rf rf'. rule_financial_stress fmt data rf = Inr rf') \<and>
      (\<exists>rf rf'. rule_work_pressure fmt data rf = Inr rf') \<and>
      (\<exists>rf rf'. rule_study_satisfaction fmt data rf = Inr rf') \<and>
      (\<exists>rf rf'. rule_job_satisfaction fmt data rf = Inr rf') \<and>
      (\<exists>rf rf'. rule_cgpa fmt data rf = Inr rf')"
    unfolding risk_rules_def by (blast dest!: bindE_Inr)
  from n consider "\<not> is_Num (dict_get data ''academic_pressure'' (Num 0))"
    | "\<not> is_Num (dict_get data ''financial_stress'' (Num 0))"
    | "\<not> is_Num (dict_get data ''work_pressure'' (Num 0))"
    | "\<not> is_Num (dict_get data ''study_satisfaction'' (Num 0))"
    | "\<not> is_Num (dict_get data ''job_satisfaction'' (Num 0))"
    | "\<not> is_Num (dict_get data ''cgpa'' (Num 0))"
    unfolding numbers_where_compared_iff by blast
  then show False
  proof cases
    case 1
    from rule_academic_pressure_not_Num[OF 1, of fmt] ex show False by simp
  next
    case 2
    from rule_financial_stress_not_Num[OF 2, of fmt] ex show False by simp
  next
    case 3
    from rule_work_pressure_not_Num[OF 3, of fmt] ex show False by simp
  next
    case 4
    from rule_study_satisfaction_not_Num[OF 4, of fmt] ex show False by simp
  next
    case 5
    from rule_job_satisfaction_not_Num[OF 5, of fmt] ex show False by simp
  next
    case 6
    from rule_cgpa_not_Num[OF 6, of fmt] ex show False by simp
  qed
qed

lemma risk_rules_not_numbers:
  assumes "\<not> numbers_where_compared data"
  shows "risk_rules fmt data = Inl TypeError"
proof (cases "risk_rules fmt data")
  case (Inl e)
  with risk_rules_Inl[OF Inl] show ?thesis by simp
next
  case (Inr out)
  from risk_rules_Inr_numbers[OF Inr] assms show ?thesis by simp
qed

section \<open>The risk factor analyzer: results\<close>

lemma analyze_ok:
  "risk_rules fmt data = Inr out \<Longrightarrow> analyze_risk_factors fmt data = out"
  by (simp add: analyze_risk_factors_def)

lemma analyze_not_numbers:
  "\<not> numbers_where_compared data \<Longrightarrow> analyze_risk_factors fmt data = []"
  by (simp add: analyze_risk_factors_def risk_rules_not_numbers)

lemma suicidal_factor_apply:
  "suicidal_factor ''factor'' = Some (Str ''History of Suicidal Thoughts'')"
  "suicidal_factor ''impact'' = Some (Str ''Critical'')"
  "suicidal_factor ''value'' = Some (Str ''Yes'')"
  unfolding suicidal_factor_def by (rule mk_factor_apply)+

lemma appended_not_suicidal:
  assumes "appended name fs" and "name \<noteq> ''History of Suicidal Thoughts''"
  shows "filter suicidal_or_critical fs = []"
proof (cases "fs = []")
  case True
  then show ?thesis by simp
next
  case False
  with assms(1) obtain d where d: "fs = [d]" "d ''factor'' = Some (Str name)"
    "d ''impact'' = Some (Str ''High'') \<or> d ''impact'' = Some (Str ''Medium'')"
    unfolding appended_def by blast
  from d(2) assms(2) have "d ''factor'' \<noteq> Some (Str ''History of Suicidal Thoughts'')" by simp
  moreover from d(3) have "d ''impact'' \<noteq> Some (Str ''Critical'')" by auto
  ultimately have "\<not> suicidal_or_critical d" by (simp add: suicidal_or_critical_def)
  with d(1) show ?thesis by simp
qed

lemma appended_names:
  assumes "appended name fs"
  shows "subseq (map (\<lambda>d. d ''factor'') fs) [Some (Str name)]"
proof (cases "fs = []")
  case True
  then show ?thesis by simp
next
  case False
  with assms obtain d where "fs = [d]" "d ''factor'' = Some (Str name)"
    unfolding appended_def by blast
  then show ?thesis by simp
qed

text \<open>
  Claim C4, as the code has it. On a raw input whose compared fields are numbers where
  present and whose \<^verbatim>\<open>suicidal_thoughts\<close> is \<^verbatim>\<open>"Yes"\<close>, the output holds exactly one factor
  that is about suicidal thoughts or critical: the factor of the rule, whose impact is
  Critical. On every raw input whose \<^verbatim>\<open>suicidal_thoughts\<close> is not \<^verbatim>\<open>"Yes"\<close> the output
  holds no such factor.
\<close>

theorem suicidal_thoughts_critical:
  "(numbers_where_compared data \<and> data ''suicidal_thoughts'' = Some (Str ''Yes'') \<longrightarrow>
      filter suicidal_or_critical (analyze_risk_factors fmt data) = [suicidal_factor]) \<and>
   (data ''suicidal_thoughts'' \<noteq> Some (Str ''Yes'') \<longrightarrow>
      filter suicidal_or_critical (analyze_risk_factors fmt data) = []) \<and>
   suicidal_factor ''impact'' = Some (Str ''Critical'')"
proof -
  let ?yes = "dict_get data ''suicidal_thoughts'' (Str ''No'') = Str ''Yes''"
  let ?s = "if ?yes then [suicidal_factor] else []"
  have yes: "?yes \<longleftrightarrow> data ''suicidal_thoughts'' = Some (Str ''Yes'')"
    by (simp add: dict_get_def split: option.splits)
  have sf: "filter suicidal_or_critical [suicidal_factor] = [suicidal_factor]"
    by (simp add: suicidal_or_critical_def suicidal_factor_apply)
  have num: "filter suicidal_or_critical (analyze_risk_factors fmt data) = ?s"
    if n: "numbers_where_compared data"
  proof -
    from risk_rules_ok[OF n, of fmt] obtain f1 f2 f3 f4 f6 f7 f8 f9 f10 where
      r: "risk_rules fmt data = Inr (f1 @ f2 @ f3 @ f4 @ ?s @ f6 @ f7 @ f8 @ f9 @ f10)"
      and a: "appended ''High Academic Pressure'' f1"
        "appended ''High Financial Stress'' f2"
        "appended ''Insufficient Sleep'' f3"
        "appended ''Unhealthy Diet'' f4"
        "appended ''Family History of Mental Illness'' f6"
        "appended ''High Work Pressure'' f7"
        "appended ''Low Study Satisfaction'' f8"
        "appended ''Low Job Satisfaction'' f9"
        "appended ''Low Academic Performance'' f10"
      by blast
    have e: "filter suicidal_or_critical f1 = []" "filter suicidal_or_critical f2 = []"
      "filter suicidal_or_critical f3 = []" "filter suicidal_or_critical f4 = []"
      "filter suicidal_or_critical f6 = []" "filter suicidal_or_critical f7 = []"
      "filter suicidal_or_critical f8 = []" "filter suicidal_or_critical f9 = []"
      "filter suicidal_or_critical f10 = []"
      by (rule appended_not_suicidal, rule a, simp)+
    have "filter suicidal_or_critical ?s = ?s" using sf by simp
    with e show ?thesis unfolding analyze_ok[OF r] by (simp only: filter_append append_Nil append_Nil2)
  qed
  have other: "filter suicidal_or_critical (analyze_risk_factors fmt data) = []"
    if "\<not> ?yes"
  proof (cases "numbers_where_compared data")
    case True
    from num[OF True] that show ?thesis by simp
  next
    case False
    then show ?thesis by (simp add: analyze_not_numbers)
  qed
  from num other show ?thesis unfolding yes by (simp add: suicidal_factor_apply)
qed

text \<open>The claim at the answers \<open>stressed_student\<close>.\<close>

theorem suicidal_thoughts_critical_witness:
  "numbers_where_compared stressed_student \<and>
   stressed_student ''suicidal_thoughts'' = Some (Str ''Yes'') \<and>
   filter suicidal_or_critical (analyze_risk_factors example_fmt stressed_student) =
     [suicidal_factor]"
proof -
  have n: "numbers_where_compared stressed_student"
    by (simp add: numbers_where_compared_iff dict_get_def stressed_student_def)
  have y: "stressed_student ''suicidal_thoughts'' = Some (Str ''Yes'')"
    by (simp add: stressed_student_def)
  from suicidal_thoughts_critical[of stressed_student example_fmt] n y show ?thesis by blast
qed

lemma malformed_cgpa_not_numbers: "\<not> numbers_where_compared malformed_cgpa"
  by (simp add: numbers_where_compared_iff dict_get_def malformed_cgpa_def)

text \<open>
  Claim C4 as stated fails where another field makes a rule raise: with
  \<^verbatim>\<open>suicidal_thoughts = "Yes"\<close> and a \<^verbatim>\<open>cgpa\<close> that is a string, the comparison
  \<^verbatim>\<open>cgpa < 6.0\<close> raises and the analyzer returns no factor at all.
\<close>

theorem suicidal_thoughts_critical_counterexample:
  "malformed_cgpa ''suicidal_thoughts'' = Some (Str ''Yes'') \<and>
   analyze_risk_factors example_fmt malformed_cgpa = []"
proof -
  have "malformed_cgpa ''suicidal_thoughts'' = Some (Str ''Yes'')"
    by (simp add: malformed_cgpa_def)
  moreover note analyze_not_numbers[OF malformed_cgpa_not_numbers, of example_fmt]
  ultimately show ?thesis by (simp only: simp_thms)
qed

text \<open>
  Claim C9, as the code has it. The analyzer raises nothing. An internal error occurs
  exactly when a field that a rule compares with a number is present and is not a
  number; the error is a \<^verbatim>\<open>TypeError\<close>, and the analyzer then returns the empty list,
  whatever the rules before the failing one had appended.
\<close>

theorem analyzer_error_returns_empty:
  "(risk_rules fmt data = Inl e \<longrightarrow>
      e = TypeError \<and> \<not> numbers_where_compared data \<and> analyze_risk_factors fmt data = []) \<and>
   (\<not> numbers_where_compared data \<longrightarrow>
      risk_rules fmt data = Inl TypeError \<and> analyze_risk_factors fmt data = [])"
proof -
  have "e = TypeError \<and> \<not> numbers_where_compared data \<and> analyze_risk_factors fmt data = []"
    if "risk_rules fmt data = Inl e"
    using risk_rules_Inl[OF that] that by (simp add: analyze_risk_factors_def)
  moreover have "risk_rules fmt data = Inl TypeError \<and> analyze_risk_factors fmt data = []"
    if "\<not> numbers_where_compared data"
    using risk_rules_not_numbers[OF that] analyze_not_numbers[OF that] by simp
  ultimately show ?thesis by blast
qed

text \<open>The claim at the input \<open>malformed_cgpa\<close>.\<close>

theorem analyzer_error_returns_empty_witness:
  "\<not> numbers_where_compared malformed_cgpa \<and>
   risk_rules example_fmt malformed_cgpa = Inl TypeError \<and>
   analyze_risk_factors example_fmt malformed_cgpa = []"
  using analyzer_error_returns_empty[of example_fmt malformed_cgpa TypeError]
    malformed_cgpa_not_numbers
  by blast

text \<open>
  Claim C9 as stated fails in its first part: a failure of one rule does abort the
  others. On \<open>malformed_cgpa\<close> the rule on academic pressure appends its factor, the rule
  on the CGPA raises, and the analyzer returns the empty list.
\<close>

theorem analyzer_error_returns_empty_counterexample:
  "rule_academic_pressure example_fmt malformed_cgpa [] =
     Inr [mk_factor ''High Academic Pressure'' (Num 5) ''High''
            ''Academic pressure level of <number>/5 indicates significant stress''] \<and>
   rule_cgpa example_fmt malformed_cgpa [] = Inl TypeError \<and>
   analyze_risk_factors example_fmt malformed_cgpa = []"
proof -
  have "rule_academic_pressure example_fmt malformed_cgpa [] =
     Inr [mk_factor ''High Academic Pressure'' (Num 5) ''High''
            ''Academic pressure level of <number>/5 indicates significant stress'']"
    by (simp add: rule_academic_pressure_def Let_def bindE_def py_ge_def dict_get_def
          malformed_cgpa_def example_fmt_def)
  moreover have "rule_cgpa example_fmt malformed_cgpa [] = Inl TypeError"
    by (simp add: rule_cgpa_def Let_def bindE_def py_lt_def dict_get_def malformed_cgpa_def)
  moreover note analyze_not_numbers[OF malformed_cgpa_not_numbers, of example_fmt]
  ultimately show ?thesis by (simp only: simp_thms)
qed

lemma stressed_student_get:
  "dict_get stressed_student ''academic_pressure'' (Num 0) = Num 5"
  "dict_get stressed_student ''financial_stress'' (Num 0) = Num 5"
  "dict_get stressed_student ''sleep_duration'' (Str ''7-8 hours'') = Str ''Less than 5 hours''"
  "dict_get stressed_student ''dietary_habits'' (Str ''Moderate'') = Str ''Unhealthy''"
  "dict_get stressed_student ''suicidal_thoughts'' (Str ''No'') = Str ''Yes''"
  "dict_get stressed_student ''family_history'' (Str ''No'') = Str ''Yes''"
  "dict_get stressed_student ''work_pressure'' (Num 0) = Num 3"
  "dict_get stressed_student ''study_satisfaction'' (Num 0) = Num 3"
  "dict_get stressed_student ''job_satisfaction'' (Num 0) = Num 0"
  "dict_get stressed_student ''cgpa'' (Num 0) = Num 7"
  by (simp_all add: dict_get_def stressed_student_def)

lemma stressed_student_factors:
  "risk_rules fmt stressed_student =
     Inr [mk_factor ''High Academic Pressure'' (Num 5) ''High''
            (''Academic pressure level of '' @ fmt (Num 5) @ ''/5 indicates significant stress''),
          mk_factor ''High Financial Stress'' (Num 5) ''High''
            (''Financial stress level of '' @ fmt (Num 5) @
             ''/5 indicates significant financial pressure''),
          mk_factor ''Insufficient Sleep'' (Str ''Less than 5 hours'') ''High''
            (''Sleep duration of '' @ fmt (Str ''Less than 5 hours'') @
             '' may contribute to mental health issues''),
          mk_factor ''Unhealthy Diet'' (Str ''Unhealthy'') ''Medium''
            ''Unhealthy dietary habits may negatively impact mental health'',
          suicidal_factor,
          mk_factor ''Family History of Mental Illness'' (Str ''Yes'') ''Medium''
            ''Family history of mental illness increases risk of developing similar conditions'']"
proof -
  have 1: "rule_academic_pressure fmt stressed_student rf =
      Inr (rf @ [mk_factor ''High Academic Pressure'' (Num 5) ''High''
            (''Academic pressure level of '' @ fmt (Num 5) @ ''/5 indicates significant stress'')])"
    for rf
    by (simp add: rule_academic_pressure_def Let_def bindE_def py_ge_def stressed_student_get)
  have 2: "rule_financial_stress fmt stressed_student rf =
      Inr (rf @ [mk_factor ''High Financial Stress'' (Num 5) ''High''
            (''Financial stress level of '' @ fmt (Num 5) @
             ''/5 indicates significant financial pressure'')])"
    for rf
    by (simp add: rule_financial_stress_def Let_def bindE_def py_ge_def stressed_student_get)
  have 3: "rule_sleep fmt stressed_student rf =
      Inr (rf @ [mk_factor ''Insufficient Sleep'' (Str ''Less than 5 hours'') ''High''
            (''Sleep duration of '' @ fmt (Str ''Less than 5 hours'') @
             '' may contribute to mental health issues'')])"
    for rf
    by (simp add: rule_sleep_def Let_def stressed_student_get)
  have 4: "rule_diet stressed_student rf =
      Inr (rf @ [mk_factor ''Unhealthy Diet'' (Str ''Unhealthy'') ''Medium''
            ''Unhealthy dietary habits may negatively impact mental health''])"
    for rf
    by (simp add: rule_diet_def Let_def stressed_student_get)
  have 5: "rule_suicidal_thoughts stressed_student rf = Inr (rf @ [suicidal_factor])" for rf
    by (simp add: rule_suicidal_thoughts_eq stressed_student_get)
  have 6: "rule_family_history stressed_student rf =
      Inr (rf @ [mk_factor ''Family History of Mental Illness'' (Str ''Yes'') ''Medium''
            ''Family history of mental illness increases risk of developing similar conditions''])"
    for rf
    by (simp add: rule_family_history_def Let_def stressed_student_get)
  have 7: "rule_work_pressure fmt stressed_student rf = Inr rf" for rf
    by (simp add: rule_work_pressure_def Let_def bindE_def py_ge_def stressed_student_get)
  have 8: "rule_study_satisfaction fmt stressed_student rf = Inr rf" for rf
    by (simp add: rule_study_satisfaction_def Let_def bindE_def py_le_def stressed_student_get)
  have 9: "rule_job_satisfaction fmt stressed_student rf = Inr rf" for rf
    by (simp add: rule_job_satisfaction_def Let_def bindE_def py_le_def py_gt_def
          stressed_student_get)
  have 10: "rule_cgpa fmt stressed_student rf = Inr rf" for rf
    by (simp add: rule_cgpa_def Let_def bindE_def py_lt_def stressed_student_get)
  show ?thesis
    unfolding risk_rules_def
    by (simp only: 1 2 3 4 5 6 7 8 9 10 bindE_def sum.case append_Nil append_Cons)
qed

lemma rule_order_names:
  "map (\<lambda>n. Some (Str n)) rule_order =
     [Some (Str ''High Academic Pressure'')] @ [Some (Str ''High Financial Stress'')] @
     [Some (Str ''Insufficient Sleep'')] @ [Some (Str ''Unhealthy Diet'')] @
     [Some (Str ''History of Suicidal Thoughts'')] @
     [Some (Str ''Family History of Mental Illness'')] @ [Some (Str ''High Work Pressure'')] @
     [Some (Str ''Low Study Satisfaction'')] @ [Some (Str ''Low Job Satisfaction'')] @
     [Some (Str ''Low Academic Performance'')]"
  by (simp add: rule_order_def)

lemma emission_order:
  "subseq (map (\<lambda>d. d ''factor'') (analyze_risk_factors fmt data))
          (map (\<lambda>n. Some (Str n)) rule_order)"
proof (cases "numbers_where_compared data")
  case False
  then show ?thesis by (simp add: analyze_not_numbers)
next
  case True
  let ?s = "if dict_get data ''suicidal_thoughts'' (Str ''No'') = Str ''Yes''
            then [suicidal_factor] else []"
  from risk_rules_ok[OF True, of fmt] obtain f1 f2 f3 f4 f6 f7 f8 f9 f10 where
    r: "risk_rules fmt data = Inr (f1 @ f2 @ f3 @ f4 @ ?s @ f6 @ f7 @ f8 @ f9 @ f10)"
    and a: "appended ''High Academic Pressure'' f1"
      "appended ''High Financial Stress'' f2"
      "appended ''Insufficient Sleep'' f3"
      "appended ''Unhealthy Diet'' f4"
      "appended ''Family History of Mental Illness'' f6"
      "appended ''High Work Pressure'' f7"
      "appended ''Low Study Satisfaction'' f8"
      "appended ''Low Job Satisfaction'' f9"
      "appended ''Low Academic Performance'' f10"
    by blast
  have s: "subseq (map (\<lambda>d. d ''factor'') ?s) [Some (Str ''History of Suicidal Thoughts'')]"
    by (simp add: suicidal_factor_apply)
  show ?thesis
    unfolding analyze_ok[OF r] rule_order_names map_append
    by (intro list_emb_append_mono appended_names a s)
qed

text \<open>
  Claim C7. On the raw input of the scenario the analyzer returns six factors, in this
  order and with these impacts: High Academic Pressure (High), High Financial Stress
  (High), Insufficient Sleep (High), Unhealthy Diet (Medium), History of Suicidal
  Thoughts (Critical), Family History of Mental Illness (Medium). On every raw input the
  names of the returned factors, in their order, are a subsequence of the fixed order
  of the ten rules.
\<close>

theorem scenario_factors_and_order:
  "map (\<lambda>d. (d ''factor'', d ''impact'')) (analyze_risk_factors fmt stressed_student) =
     [(Some (Str ''High Academic Pressure''), Some (Str ''High'')),
      (Some (Str ''High Financial Stress''), Some (Str ''High'')),
      (Some (Str ''Insufficient Sleep''), Some (Str ''High'')),
      (Some (Str ''Unhealthy Diet''), Some (Str ''Medium'')),
      (Some (Str ''History of Suicidal Thoughts''), Some (Str ''Critical'')),
      (Some (Str ''Family History of Mental Illness''), Some (Str ''Medium''))] \<and>
   subseq (map (\<lambda>d. d ''factor'') (analyze_risk_factors fmt data))
          (map (\<lambda>n. Some (Str n)) rule_order)"
proof -
  have "map (\<lambda>d. (d ''factor'', d ''impact'')) (analyze_risk_factors fmt stressed_student) =
     [(Some (Str ''High Academic Pressure''), Some (Str ''High'')),
      (Some (Str ''High Financial Stress''), Some (Str ''High'')),
      (Some (Str ''Insufficient Sleep''), Some (Str ''High'')),
      (Some (Str ''Unhealthy Diet''), Some (Str ''Medium'')),
      (Some (Str ''History of Suicidal Thoughts''), Some (Str ''Critical'')),
      (Some (Str ''Family History of Mental Illness''), Some (Str ''Medium''))]"
    unfolding analyze_ok[OF stressed_student_factors]
    by (simp only: list.map mk_factor_apply suicidal_factor_apply)
  with emission_order show ?thesis by (simp only: simp_thms)
qed

text \<open>The order at the input \<open>malformed_cgpa\<close> and at the answers of the scenario, with
  the formatting \<open>example_fmt\<close>.\<close>

theorem scenario_factors_and_order_witness:
  "length (analyze_risk_factors example_fmt stressed_student) = 6 \<and>
   subseq (map (\<lambda>d. d ''factor'') (analyze_risk_factors example_fmt malformed_cgpa))
          (map (\<lambda>n. Some (Str n)) rule_order)"
proof -
  from scenario_factors_and_order[of example_fmt malformed_cgpa]
  have m: "map (\<lambda>d. (d ''factor'', d ''impact'')) (analyze_risk_factors example_fmt stressed_student) =
     [(Some (Str ''High Academic Pressure''), Some (Str ''High'')),
      (Some (Str ''High Financial Stress''), Some (Str ''High'')),
      (Some (Str ''Insufficient Sleep''), Some (Str ''High'')),
      (Some (Str ''Unhealthy Diet''), Some (Str ''Medium'')),
      (Some (Str ''History of Suicidal Thoughts''), Some (Str ''Critical'')),
      (Some (Str ''Family History of Mental Illness''), Some (Str ''Medium''))]"
    and o: "subseq (map (\<lambda>d. d ''factor'') (analyze_risk_factors example_fmt malformed_cgpa))
          (map (\<lambda>n. Some (Str n)) rule_order)"
    by blast+
  from m have "length (map (\<lambda>d. (d ''factor'', d ''impact''))
      (analyze_risk_factors example_fmt stressed_student)) = 6"
    by simp
  then have "length (analyze_risk_factors example_fmt stressed_student) = 6"
    by (simp only: length_map)
  with o show ?thesis by (simp only: simp_thms)
qed

section \<open>The recommendation engine: results\<close>

text \<open>
  The loop keeps the first occurrence of every string that is not in \<^verbatim>\<open>seen\<close>.
  \<open>remdups\<close> keeps the last occurrence of every element, so on the reversed list,
  reversed back, it keeps the first.
\<close>

lemma remdups_snoc: "remdups (ys @ [x]) = remdups (filter (\<lambda>y. y \<noteq> x) ys) @ [x]"
  by (induction ys) auto

lemma filter_not_insert:
  "filter (\<lambda>y. y \<notin> insert x seen) xs =
     filter (\<lambda>y. y \<noteq> x) (filter (\<lambda>y. y \<notin> seen) xs)"
  by (induction xs) auto

lemma first_seen_Cons:
  "rev (remdups (rev (x # ys))) = x # rev (remdups (rev (filter (\<lambda>y. y \<noteq> x) ys)))"
  by (simp add: remdups_snoc rev_filter)

lemma unique_loop_eq:
  "unique_loop xs seen acc = acc @ rev (remdups (rev (filter (\<lambda>x. x \<notin> seen) xs)))"
proof (induction xs arbitrary: seen acc)
  case Nil
  then show ?case by simp
next
  case (Cons x xs)
  show ?case
  proof (cases "x \<in> seen")
    case True
    then show ?thesis by (simp add: Cons.IH)
  next
    case False
    then have "unique_loop (x # xs) seen acc = unique_loop xs (insert x seen) (acc @ [x])"
      by simp
    also have "\<dots> = (acc @ [x]) @ rev (remdups (rev (filter (\<lambda>y. y \<notin> insert x seen) xs)))"
      by (rule Cons.IH)
    also have "\<dots> = acc @ rev (remdups (rev (x # filter (\<lambda>y. y \<notin> seen) xs)))"
      by (simp only: filter_not_insert first_seen_Cons append_assoc append_Cons append_Nil)
    also from False have "x # filter (\<lambda>y. y \<notin> seen) xs = filter (\<lambda>y. y \<notin> seen) (x # xs)"
      by simp
    finally show ?thesis .
  qed
qed

lemma unique_loop_first_seen: "unique_loop xs {} [] = rev (remdups (rev xs))"
  by (simp add: unique_loop_eq)

lemma risk_factor_loop_Inr:
  "risk_factor_loop rfs recs = Inr out \<Longrightarrow>
     out = recs @ concat (map (\<lambda>rf. projr (specific_recommendations rf)) rfs)"
proof (induction rfs arbitrary: recs)
  case Nil
  then show ?case by simp
next
  case (Cons rf rfs)
  from Cons.prems obtain adv where a: "specific_recommendations rf = Inr adv"
    and l: "risk_factor_loop rfs (recs @ adv) = Inr out"
    by (cases "specific_recommendations rf") simp_all
  from Cons.IH[OF l] a show ?case by simp
qed

text \<open>
  Claim C5. For every raw input, probability and list of risk factors the returned list
  has at most 10 entries and no two equal entries. When the body raises nothing, the
  list holds the first 10 entries of the collected recommendations (the seed of the
  probability band, then the strings of each factor in turn) with every string kept at
  its first occurrence only: duplicates are removed before the list is cut. When the
  body raises, the list is the one fallback string.
\<close>

theorem recommendations_capped_and_unique:
  "length (generate_recommendations data probability risk_factors) \<le> 10 \<and>
   distinct (generate_recommendations data probability risk_factors) \<and>
   (general_recommendations probability = Inr seed \<and>
    risk_factor_loop risk_factors seed = Inr recs \<longrightarrow>
      recs = seed @ concat (map (\<lambda>rf. projr (specific_recommendations rf)) risk_factors) \<and>
      generate_recommendations data probability risk_factors =
        take 10 (rev (remdups (rev recs)))) \<and>
   (recommendations_body probability risk_factors = Inl e \<longrightarrow>
      generate_recommendations data probability risk_factors =
        [''Please consult with a mental health professional for personalized advice''])"
proof -
  let ?R = "generate_recommendations data probability risk_factors"
  have ok: "recs = seed @ concat (map (\<lambda>rf. projr (specific_recommendations rf)) risk_factors) \<and>
      ?R = take 10 (rev (remdups (rev recs)))"
    if "general_recommendations probability = Inr seed"
      and "risk_factor_loop risk_factors seed = Inr recs"
    using that risk_factor_loop_Inr[OF that(2)]
    by (simp add: generate_recommendations_def recommendations_body_def bindE_def
          unique_loop_first_seen)
  have err: "?R = [''Please consult with a mental health professional for personalized advice'']"
    if "recommendations_body probability risk_factors = Inl e"
    using that by (simp add: generate_recommendations_def)
  have "length ?R \<le> 10 \<and> distinct ?R"
  proof (cases "recommendations_body probability risk_factors")
    case (Inl e')
    then have "?R = [''Please consult with a mental health professional for personalized advice'']"
      by (simp add: generate_recommendations_def)
    then show ?thesis by simp
  next
    case (Inr out)
    then obtain recs' where "out = take 10 (unique_loop recs' {} [])"
      unfolding recommendations_body_def by (auto dest!: bindE_Inr)
    with Inr have "?R = take 10 (rev (remdups (rev recs')))"
      by (simp add: generate_recommendations_def unique_loop_first_seen)
    then show ?thesis by simp
  qed
  with ok err show ?thesis by blast
qed

lemma satisfaction_advice:
  "specific_recommendations (mk_factor ''Low Study Satisfaction'' v i d) =
     Inr [''Explore new interests or hobbies to increase life satisfaction'',
          ''Consider career counseling or academic guidance'']"
  "specific_recommendations (mk_factor ''Low Job Satisfaction'' v i d) =
     Inr [''Explore new interests or hobbies to increase life satisfaction'',
          ''Consider career counseling or academic guidance'']"
  by (simp_all add: specific_recommendations_def bindE_def dict_index_def mk_factor_apply
        py_in_def)

text \<open>
  The claim at the probability 0.5 and the two factors of \<open>dissatisfied\<close>: both factors
  match the branch on \<^verbatim>\<open>Satisfaction\<close>, the pair of strings is collected twice and
  returned once.
\<close>

theorem recommendations_capped_and_unique_witness:
  "general_recommendations (Num 0.5) =
     Inr [''Consider speaking with a mental health professional for assessment'',
          ''Focus on stress management techniques and self-care'',
          ''Maintain regular sleep and exercise routines''] \<and>
   risk_factor_loop dissatisfied
     [''Consider speaking with a mental health professional for assessment'',
      ''Focus on stress management techniques and self-care'',
      ''Maintain regular sleep and exercise routines''] =
     Inr [''Consider speaking with a mental health professional for assessment'',
          ''Focus on stress management techniques and self-care'',
          ''Maintain regular sleep and exercise routines'',
          ''Explore new interests or hobbies to increase life satisfaction'',
          ''Consider career counseling or academic guidance'',
          ''Explore new interests or hobbies to increase life satisfaction'',
          ''Consider career counseling or academic guidance''] \<and>
   generate_recommendations Map.empty (Num 0.5) dissatisfied =
     [''Consider speaking with a mental health professional for assessment'',
      ''Focus on stress management techniques and self-care'',
      ''Maintain regular sleep and exercise routines'',
      ''Explore new interests or hobbies to increase life satisfaction'',
      ''Consider career counseling or academic guidance'']"
proof -
  let ?seed = "[''Consider speaking with a mental health professional for assessment'',
      ''Focus on stress management techniques and self-care'',
      ''Maintain regular sleep and exercise routines'']"
  let ?recs = "[''Consider speaking with a mental health professional for assessment'',
          ''Focus on stress management techniques and self-care'',
          ''Maintain regular sleep and exercise routines'',
          ''Explore new interests or hobbies to increase life satisfaction'',
          ''Consider career counseling or academic guidance'',
          ''Explore new interests or hobbies to increase life satisfaction'',
          ''Consider career counseling or academic guidance'']"
  have g: "general_recommendations (Num 0.5) = Inr ?seed"
    by (simp add: general_recommendations_def bindE_def py_gt_def)
  have l: "risk_factor_loop dissatisfied ?seed = Inr ?recs"
    by (simp add: dissatisfied_def satisfaction_advice)
  from recommendations_capped_and_unique[of Map.empty "Num 0.5" dissatisfied ?seed ?recs] g l
  have "generate_recommendations Map.empty (Num 0.5) dissatisfied =
          take 10 (rev (remdups (rev ?recs)))"
    by blast
  also have "\<dots> = [''Consider speaking with a mental health professional for assessment'',
      ''Focus on stress management techniques and self-care'',
      ''Maintain regular sleep and exercise routines'',
      ''Explore new interests or hobbies to increase life satisfaction'',
      ''Consider career counseling or academic guidance'']"
    by simp
  finally show ?thesis using g l by (simp only: simp_thms)
qed

section \<open>The predictor: results\<close>









end
